theory Spec2Isabelle
  imports Complex_Main "HOL-Library.Sublist" "HOL-Library.Log_Nat"
begin

section \<open>Strings, errors and XML trees\<close>

text \<open>
  The repository holds three stand-alone generators, \<^verbatim>\<open>generate_sites.py\<close>,
  \<^verbatim>\<open>build.py\<close> and \<^verbatim>\<open>build_sites.py\<close>. Functions of the same name are kept apart
  by a prefix: \<open>gs_\<close>, \<open>b_\<close> and \<open>bs_\<close>.

  A Python \<^verbatim>\<open>str\<close> is a sequence of Unicode code points, so a string is a list of
  natural numbers; \<open>u\<close> turns an ASCII literal into one.
\<close>

type_synonym ustr = "nat list"

definition u :: "string \<Rightarrow> ustr" where
  "u s = map of_char s"

text \<open>The exceptions the modelled code can raise.\<close>

datatype py_error = ValueError | IndexError | OverflowError | TypeError | AttributeError
  | FileExistsError | FileNotFoundError | NotADirectoryError | IsADirectoryError | OSError

text \<open>\<^verbatim>\<open>str.isspace\<close>: the code points \<^verbatim>\<open>str.strip()\<close> removes.\<close>

definition is_space :: "nat \<Rightarrow> bool" where
  "is_space c \<longleftrightarrow>
     (9 \<le> c \<and> c \<le> 13) \<or> (28 \<le> c \<and> c \<le> 32) \<or> c = 133 \<or> c = 160 \<or> c = 5760 \<or>
     (8192 \<le> c \<and> c \<le> 8202) \<or> c = 8232 \<or> c = 8233 \<or> c = 8239 \<or> c = 8287 \<or> c = 12288"

definition lstrip_by :: "(nat \<Rightarrow> bool) \<Rightarrow> ustr \<Rightarrow> ustr" where
  "lstrip_by P s = dropWhile P s"

definition rstrip_by :: "(nat \<Rightarrow> bool) \<Rightarrow> ustr \<Rightarrow> ustr" where
  "rstrip_by P s = rev (dropWhile P (rev s))"

definition strip_by :: "(nat \<Rightarrow> bool) \<Rightarrow> ustr \<Rightarrow> ustr" where
  "strip_by P s = rstrip_by P (lstrip_by P s)"

text \<open>\<^verbatim>\<open>s.strip()\<close> with no argument.\<close>

definition strip :: "ustr \<Rightarrow> ustr" where
  "strip s = strip_by is_space s"

text \<open>
  The whitespace \<^verbatim>\<open>int(s)\<close> and \<^verbatim>\<open>float(s)\<close> skip around a number: the same code points
  but for the four separators U+001C to U+001F.
\<close>

definition is_number_space :: "nat \<Rightarrow> bool" where
  "is_number_space c \<longleftrightarrow> is_space c \<and> \<not> (28 \<le> c \<and> c \<le> 31)"

definition number_strip :: "ustr \<Rightarrow> ustr" where
  "number_strip s = strip_by is_number_space s"

text \<open>
  An \<^verbatim>\<open>xml.etree.ElementTree.Element\<close>: tag (with its namespace in braces), attributes,
  text (\<^verbatim>\<open>None\<close> when the element has none) and children in document order.
\<close>

datatype xml = Elem (tag: ustr) (attrib: "(ustr \<times> ustr) list") (etext: "ustr option") (children: "xml list")

text \<open>\<^verbatim>\<open>e.iter()\<close>: the element and all its descendants, in document order.\<close>

fun iter_all :: "xml \<Rightarrow> xml list" where
  "iter_all (Elem t a x cs) = Elem t a x cs # concat (map iter_all cs)"

text \<open>\<^verbatim>\<open>e.iter(tag)\<close>.\<close>

definition iter_tag :: "ustr \<Rightarrow> xml \<Rightarrow> xml list" where
  "iter_tag tg e = filter (\<lambda>x. tag x = tg) (iter_all e)"

text \<open>\<^verbatim>\<open>e.findall(tag)\<close>: the direct children with that tag.\<close>

definition findall_child :: "ustr \<Rightarrow> xml \<Rightarrow> xml list" where
  "findall_child tg e = filter (\<lambda>x. tag x = tg) (children e)"

text \<open>\<^verbatim>\<open>e.findall('.//tag')\<close>: all descendants with that tag, the element itself excluded.\<close>

definition findall_desc :: "ustr \<Rightarrow> xml \<Rightarrow> xml list" where
  "findall_desc tg e = filter (\<lambda>x. tag x = tg) (concat (map iter_all (children e)))"

text \<open>\<^verbatim>\<open>e.find(tag)\<close>: the first direct child with that tag.\<close>

definition find_child :: "ustr \<Rightarrow> xml \<Rightarrow> xml option" where
  "find_child tg e = find (\<lambda>x. tag x = tg) (children e)"

text \<open>\<^verbatim>\<open>e.get(key)\<close>.\<close>

definition get_attr :: "xml \<Rightarrow> ustr \<Rightarrow> ustr option" where
  "get_attr e k = map_of (attrib e) k"

text \<open>\<^verbatim>\<open>e.text or ""\<close>.\<close>

definition text_or_empty :: "xml \<Rightarrow> ustr" where
  "text_or_empty e = (case etext e of None \<Rightarrow> [] | Some s \<Rightarrow> s)"

definition NS :: ustr where
  "NS = u ''{http://schemas.openxmlformats.org/spreadsheetml/2006/main}''"

definition SI :: ustr where "SI = NS @ u ''si''"
definition T :: ustr where "T = NS @ u ''t''"
definition ROW :: ustr where "ROW = NS @ u ''row''"
definition C :: ustr where "C = NS @ u ''c''"
definition V :: ustr where "V = NS @ u ''v''"
definition SHEETDATA :: ustr where "SHEETDATA = NS @ u ''sheetData''"

section \<open>Integer parsing and list indexing\<close>

text \<open>
  \<^verbatim>\<open>int(s)\<close> and \<^verbatim>\<open>float(s)\<close> accept the decimal digits of every script: before the text
  is parsed, each code point from 128 on that has a decimal value is replaced by the ASCII
  digit of that value. The decimal digits of Unicode 14.0 stand in 66 runs of ten, zero
  first; \<open>DECIMAL_ZEROS\<close> lists the zero of every run.
\<close>

definition DECIMAL_ZEROS :: "nat list" where
  "DECIMAL_ZEROS =
     [48, 1632, 1776, 1984, 2406, 2534, 2662, 2790, 2918, 3046, 3174, 3302, 3430, 3558, 3664,
      3792, 3872, 4160, 4240, 6112, 6160, 6470, 6608, 6784, 6800, 6992, 7088, 7232, 7248,
      42528, 43216, 43264, 43472, 43504, 43600, 44016, 65296, 66720, 68912, 69734, 69872,
      69942, 70096, 70384, 70736, 70864, 71248, 71360, 71472, 71904, 72016, 72784, 73040,
      73120, 92768, 92864, 93008, 120782, 120792, 120802, 120812, 120822, 123200, 123632,
      125264, 130032]"

definition decimal_digit :: "nat \<Rightarrow> nat option" where
  "decimal_digit c = map_option (\<lambda>z. c - z) (find (\<lambda>z. z \<le> c \<and> c < z + 10) DECIMAL_ZEROS)"

definition to_ascii_digit :: "nat \<Rightarrow> nat" where
  "to_ascii_digit c =
     (if c < 128 then c else (case decimal_digit c of None \<Rightarrow> c | Some d \<Rightarrow> 48 + d))"

definition is_digit :: "nat \<Rightarrow> bool" where
  "is_digit c \<longleftrightarrow> 48 \<le> c \<and> c \<le> 57"

text \<open>
  The digit part of a Python numeric literal in a string: digits, single underscores
  allowed between two digits. The result is the digits with the underscores removed; \<open>None\<close>
  when the text is not a digit part.
\<close>

fun digitpart :: "ustr \<Rightarrow> ustr option" where
  "digitpart [] = None"
| "digitpart [c] = (if is_digit c then Some [c] else None)"
| "digitpart (c # d # cs) =
     (if is_digit c then
        (if d = 95 then (if cs = [] then None else map_option (Cons c) (digitpart cs))
         else map_option (Cons c) (digitpart (d # cs)))
      else None)"

definition digits_value :: "ustr \<Rightarrow> int" where
  "digits_value ds = foldl (\<lambda>a c. a * 10 + (int c - 48)) 0 ds"

text \<open>\<^verbatim>\<open>int(s)\<close> for a string: \<open>None\<close> stands for \<^verbatim>\<open>ValueError\<close>.\<close>

definition py_int :: "ustr \<Rightarrow> int option" where
  "py_int s =
     (case number_strip (map to_ascii_digit s) of
        [] \<Rightarrow> None
      | c # r \<Rightarrow>
          if c = 45 then map_option (\<lambda>ds. - digits_value ds) (digitpart r)
          else if c = 43 then map_option (\<lambda>ds. digits_value ds) (digitpart r)
          else map_option (\<lambda>ds. digits_value ds) (digitpart (c # r)))"

text \<open>\<^verbatim>\<open>xs[i]\<close>: a negative index counts from the end, out of range raises.\<close>

definition py_index :: "'a list \<Rightarrow> int \<Rightarrow> py_error + 'a" where
  "py_index xs i =
     (if 0 \<le> i \<and> i < int (length xs) then Inr (xs ! nat i)
      else if i < 0 \<and> - int (length xs) \<le> i then Inr (xs ! nat (int (length xs) + i))
      else Inl IndexError)"

text \<open>\<^verbatim>\<open>shared[int(val)]\<close>.\<close>

definition shared_lookup :: "ustr list \<Rightarrow> ustr \<Rightarrow> py_error + ustr" where
  "shared_lookup shared val =
     (case py_int val of None \<Rightarrow> Inl ValueError | Some i \<Rightarrow> py_index shared i)"

section \<open>The shared-string table\<close>

text \<open>
  \<^verbatim>\<open>generate_sites.load_shared_strings\<close>: one string per \<^verbatim>\<open>si\<close> child of the root, the
  texts of all its \<^verbatim>\<open>t\<close> descendants joined.
\<close>

definition gs_load_shared_strings :: "xml \<Rightarrow> ustr list" where
  "gs_load_shared_strings ss_root =
     map (\<lambda>si. concat (map text_or_empty (iter_tag T si))) (findall_child SI ss_root)"

text \<open>\<^verbatim>\<open>build_sites.load_shared_strings\<close>: the same over \<^verbatim>\<open>.//si\<close> and \<^verbatim>\<open>.//t\<close>.\<close>

definition bs_load_shared_strings :: "xml \<Rightarrow> ustr list" where
  "bs_load_shared_strings ss_root =
     map (\<lambda>si. concat (map text_or_empty (findall_desc T si))) (findall_desc SI ss_root)"

text \<open>
  \<^verbatim>\<open>build.load_strings\<close>: one string per \<^verbatim>\<open>t\<close> element of the whole document, whatever
  \<^verbatim>\<open>si\<close> entry it stands in.
\<close>

definition b_load_strings :: "xml \<Rightarrow> ustr list" where
  "b_load_strings shared_strings = map text_or_empty (iter_tag T shared_strings)"

section \<open>Column references and the row decoder\<close>

definition is_AZ :: "nat \<Rightarrow> bool" where
  "is_AZ c \<longleftrightarrow> 65 \<le> c \<and> c \<le> 90"

text \<open>
  \<^verbatim>\<open>generate_sites.column_index\<close>. \<^verbatim>\<open>re.match(r"([A-Z]+)", cell_ref)\<close> matches the longest
  run of capitals at the start of the reference and fails when that run is empty.
\<close>

definition column_index :: "ustr \<Rightarrow> nat" where
  "column_index cell_ref =
     (let letters = takeWhile is_AZ cell_ref in
      if letters = [] then 1
      else foldl (\<lambda>index char. index * 26 + (char - 65 + 1)) 0 letters)"

text \<open>
  The inner \<^verbatim>\<open>while current_col < idx\<close> loop of \<^verbatim>\<open>generate_sites.load_sheet_rows\<close>, on
  the pair \<open>(row_vals, current_col)\<close>.
\<close>

function pad_to :: "nat \<Rightarrow> ustr list \<Rightarrow> nat \<Rightarrow> ustr list \<times> nat" where
  "pad_to idx row_vals current_col =
     (if current_col < idx then pad_to idx (row_vals @ [[]]) (current_col + 1)
      else (row_vals, current_col))"
  by pat_completeness auto
termination
  by (relation "measure (\<lambda>(idx, row_vals, current_col). idx - current_col)") auto

text \<open>
  The value of a cell that has a \<^verbatim>\<open>v\<close> child, in \<^verbatim>\<open>generate_sites.load_sheet_rows\<close>:
  \<^verbatim>\<open>val = value.text or ""\<close>, looked up in the shared strings when the cell's type is \<^verbatim>\<open>s\<close>.
\<close>

definition gs_cell_value :: "ustr list \<Rightarrow> xml \<Rightarrow> xml \<Rightarrow> py_error + ustr" where
  "gs_cell_value shared cell v =
     (if get_attr cell (u ''t'') = Some (u ''s'') then shared_lookup shared (text_or_empty v)
      else Inr (text_or_empty v))"

text \<open>\<^verbatim>\<open>column_index(cell.get("r", ""))\<close>.\<close>

definition cell_column :: "xml \<Rightarrow> nat" where
  "cell_column cell = column_index (case get_attr cell (u ''r'') of None \<Rightarrow> [] | Some r \<Rightarrow> r)"

text \<open>The loop over the cells of one row of \<^verbatim>\<open>generate_sites.load_sheet_rows\<close>.\<close>

fun gs_row_loop :: "ustr list \<Rightarrow> xml list \<Rightarrow> ustr list \<Rightarrow> nat \<Rightarrow> py_error + ustr list" where
  "gs_row_loop shared [] row_vals current_col = Inr row_vals"
| "gs_row_loop shared (cell # cells) row_vals current_col =
     (case find_child V cell of
        None \<Rightarrow> gs_row_loop shared cells (row_vals @ [[]]) current_col
      | Some v \<Rightarrow>
          (case gs_cell_value shared cell v of
             Inl e \<Rightarrow> Inl e
           | Inr val \<Rightarrow>
               (let idx = cell_column cell;
                    (row_vals', current_col') = pad_to idx row_vals current_col
                in gs_row_loop shared cells (row_vals' @ [val]) (current_col' + 1))))"

definition gs_decode_row :: "ustr list \<Rightarrow> xml \<Rightarrow> py_error + ustr list" where
  "gs_decode_row shared row = gs_row_loop shared (findall_child C row) [] 1"

text \<open>Running a fallible step over a list; the first exception ends the run.\<close>

fun map_result :: "('a \<Rightarrow> py_error + 'b) \<Rightarrow> 'a list \<Rightarrow> py_error + 'b list" where
  "map_result f [] = Inr []"
| "map_result f (x # xs) =
     (case f x of
        Inl e \<Rightarrow> Inl e
      | Inr y \<Rightarrow> (case map_result f xs of Inl e \<Rightarrow> Inl e | Inr ys \<Rightarrow> Inr (y # ys)))"

text \<open>
  \<^verbatim>\<open>generate_sites.load_sheet_rows\<close>, from the two parsed XML parts of the workbook.
\<close>

definition gs_load_sheet_rows :: "xml \<Rightarrow> xml \<Rightarrow> py_error + ustr list list" where
  "gs_load_sheet_rows shared_root sheet_root =
     map_result (gs_decode_row (gs_load_shared_strings shared_root)) (findall_desc ROW sheet_root)"

text \<open>
  \<^verbatim>\<open>build.load_rows\<close>. A value is \<^verbatim>\<open>None\<close> when the cell has a \<^verbatim>\<open>v\<close> child without text
  and is not a shared string, so a decoded value is an optional string. Cells are
  appended in document order; the cell reference is not read.
\<close>

definition b_decode_cell :: "ustr list \<Rightarrow> xml \<Rightarrow> py_error + ustr option" where
  "b_decode_cell strings cell =
     (let cell_type = get_attr cell (u ''t'');
          val = (case find_child V cell of None \<Rightarrow> Some [] | Some value_node \<Rightarrow> etext value_node)
      in if cell_type = Some (u ''s'') then
           (case val of
              None \<Rightarrow> Inr (Some [])
            | Some txt \<Rightarrow>
                if txt = [] then Inr (Some [])
                else (case shared_lookup strings txt of Inl e \<Rightarrow> Inl e | Inr x \<Rightarrow> Inr (Some x)))
         else Inr val)"

definition b_load_rows :: "ustr list \<Rightarrow> xml \<Rightarrow> py_error + ustr option list list" where
  "b_load_rows strings sheet =
     map_result (\<lambda>row. map_result (b_decode_cell strings) (iter_tag C row)) (iter_tag ROW sheet)"

text \<open>
  \<^verbatim>\<open>build_sites.load_rows\<close>: \<^verbatim>\<open>int(None)\<close> is a \<^verbatim>\<open>TypeError\<close>. Cells are appended in
  document order here too.
\<close>

definition bs_decode_cell :: "ustr list \<Rightarrow> xml \<Rightarrow> py_error + ustr option" where
  "bs_decode_cell shared cell =
     (case find_child V cell of
        None \<Rightarrow> Inr (Some [])
      | Some value_node \<Rightarrow>
          if get_attr cell (u ''t'') = Some (u ''s'') then
            (case etext value_node of
               None \<Rightarrow> Inl TypeError
             | Some txt \<Rightarrow> (case shared_lookup shared txt of Inl e \<Rightarrow> Inl e | Inr x \<Rightarrow> Inr (Some x)))
          else Inr (etext value_node))"

definition bs_load_rows :: "xml \<Rightarrow> xml \<Rightarrow> py_error + ustr option list list" where
  "bs_load_rows ss_root sheet =
     map_result (\<lambda>row. map_result (bs_decode_cell (bs_load_shared_strings ss_root)) (findall_child C row))
       (concat (map (findall_child ROW) (findall_desc SHEETDATA sheet)))"

section \<open>Numbers\<close>

text \<open>
  A Python \<^verbatim>\<open>float\<close>: a finite binary64 value as its sign bit and exact magnitude (so that
  \<^verbatim>\<open>-0.0\<close> is told from \<^verbatim>\<open>0.0\<close>), an infinity with its sign, or a NaN.
\<close>

datatype pyfloat = Finite bool rat | Infinite bool | NaN

definition pow2 :: "int \<Rightarrow> rat" where
  "pow2 k = (if 0 \<le> k then 2 ^ nat k else 1 / 2 ^ nat (- k))"

definition pow10 :: "int \<Rightarrow> rat" where
  "pow10 k = (if 0 \<le> k then 10 ^ nat k else 1 / 10 ^ nat (- k))"

text \<open>The nearest integer, a tie going to the even one.\<close>

definition round_half_even :: "rat \<Rightarrow> int" where
  "round_half_even q =
     (let f = \<lfloor>q\<rfloor>; d = q - of_int f
      in if d < 1 / 2 then f else if 1 / 2 < d then f + 1 else if even f then f else f + 1)"

text \<open>For a positive \<open>q\<close>, the \<open>e\<close> with \<open>2 ^ e \<le> q < 2 ^ (e + 1)\<close>.\<close>

definition floor_log2 :: "rat \<Rightarrow> int" where
  "floor_log2 q =
     (let k = bitlen (fst (quotient_of q)) - bitlen (snd (quotient_of q))
      in if pow2 k \<le> q then k else k - 1)"

text \<open>
  Rounding a magnitude to binary64 (53 significant bits, least exponent \<open>-1074\<close>, ties to
  even, overflow to infinity), as the correctly rounded \<^verbatim>\<open>float(s)\<close> does.
\<close>

definition to_double :: "bool \<Rightarrow> rat \<Rightarrow> pyfloat" where
  "to_double neg m =
     (if m = 0 then Finite neg 0
      else
        (let p = max (floor_log2 m - 52) (- 1074);
             v = of_int (round_half_even (m / pow2 p)) * pow2 p
         in if 2 ^ 1024 \<le> v then Infinite neg else Finite neg v))"

definition ascii_lower_char :: "nat \<Rightarrow> nat" where
  "ascii_lower_char c = (if 65 \<le> c \<and> c \<le> 90 then c + 32 else c)"

text \<open>Splitting a string at the first code point that satisfies \<open>P\<close>.\<close>

definition split_first :: "(nat \<Rightarrow> bool) \<Rightarrow> ustr \<Rightarrow> ustr \<times> ustr option" where
  "split_first P s =
     (case dropWhile (\<lambda>c. \<not> P c) s of
        [] \<Rightarrow> (s, None)
      | c # r \<Rightarrow> (takeWhile (\<lambda>c. \<not> P c) s, Some r))"

text \<open>
  The grammar of \<^verbatim>\<open>float(s)\<close>: \<^verbatim>\<open>number ::= [digitpart] "." digitpart | digitpart ["."]\<close>,
  read as the digits before and after the point.
\<close>

definition parse_number :: "ustr \<Rightarrow> (ustr \<times> ustr) option" where
  "parse_number s =
     (case split_first (\<lambda>c. c = 46) s of
        (ip, None) \<Rightarrow> map_option (\<lambda>a. (a, [])) (digitpart ip)
      | (ip, Some fp) \<Rightarrow>
          if ip = [] then map_option (\<lambda>b. ([], b)) (digitpart fp)
          else if fp = [] then map_option (\<lambda>a. (a, [])) (digitpart ip)
          else (case (digitpart ip, digitpart fp) of
                  (Some a, Some b) \<Rightarrow> Some (a, b)
                | _ \<Rightarrow> None))"

text \<open>\<^verbatim>\<open>exponent ::= ("e" | "E") [sign] digitpart\<close>, after the letter.\<close>

definition parse_exponent :: "ustr \<Rightarrow> int option" where
  "parse_exponent s =
     (case s of
        [] \<Rightarrow> None
      | c # r \<Rightarrow>
          if c = 45 then map_option (\<lambda>ds. - digits_value ds) (digitpart r)
          else if c = 43 then map_option (\<lambda>ds. digits_value ds) (digitpart r)
          else map_option (\<lambda>ds. digits_value ds) (digitpart s))"

definition decimal_value :: "ustr \<Rightarrow> ustr \<Rightarrow> int \<Rightarrow> rat" where
  "decimal_value a b x = of_int (digits_value (a @ b)) * pow10 (x - int (length b))"

definition parse_floatnumber :: "ustr \<Rightarrow> rat option" where
  "parse_floatnumber s =
     (case split_first (\<lambda>c. c = 101 \<or> c = 69) s of
        (m, None) \<Rightarrow> map_option (\<lambda>(a, b). decimal_value a b 0) (parse_number m)
      | (m, Some e) \<Rightarrow>
          (case (parse_number m, parse_exponent e) of
             (Some (a, b), Some x) \<Rightarrow> Some (decimal_value a b x)
           | _ \<Rightarrow> None))"

text \<open>
  \<^verbatim>\<open>float(s)\<close> for a string, \<open>None\<close> standing for \<^verbatim>\<open>ValueError\<close>: surrounding whitespace
  is dropped, a sign may come first, then \<^verbatim>\<open>inf\<close>, \<^verbatim>\<open>infinity\<close> or \<^verbatim>\<open>nan\<close> in any case, or
  a decimal number.
\<close>

definition py_float :: "ustr \<Rightarrow> pyfloat option" where
  "py_float s =
     (let t = number_strip (map to_ascii_digit s);
          neg = (t \<noteq> [] \<and> hd t = 45);
          body = (if t \<noteq> [] \<and> (hd t = 45 \<or> hd t = 43) then tl t else t);
          low = map ascii_lower_char body
      in if low = u ''inf'' \<or> low = u ''infinity'' then Some (Infinite neg)
         else if low = u ''nan'' then Some NaN
         else map_option (to_double neg) (parse_floatnumber body))"

text \<open>
  \<^verbatim>\<open>int(f)\<close> for a float truncates towards zero; an infinity raises \<^verbatim>\<open>OverflowError\<close> and a
  NaN raises \<^verbatim>\<open>ValueError\<close>.
\<close>

definition float_to_int :: "pyfloat \<Rightarrow> py_error + int" where
  "float_to_int f =
     (case f of
        Finite neg m \<Rightarrow> Inr (if neg then - \<lfloor>m\<rfloor> else \<lfloor>m\<rfloor>)
      | Infinite neg \<Rightarrow> Inl OverflowError
      | NaN \<Rightarrow> Inl ValueError)"

text \<open>\<^verbatim>\<open>abs(f)\<close> for a float.\<close>

definition float_abs :: "pyfloat \<Rightarrow> pyfloat" where
  "float_abs f = (case f of Finite neg m \<Rightarrow> Finite False m | Infinite neg \<Rightarrow> Infinite False | NaN \<Rightarrow> NaN)"

text \<open>\<^verbatim>\<open>str(n)\<close> for an integer.\<close>

function str_nat :: "int \<Rightarrow> ustr" where
  "str_nat n = (if n < 10 then [nat (48 + n)] else str_nat (n div 10) @ [nat (48 + n mod 10)])"
  by pat_completeness auto
termination
  by (relation "measure nat") auto

definition str_int :: "int \<Rightarrow> ustr" where
  "str_int i = (if i < 0 then 45 # str_nat (- i) else str_nat i)"

text \<open>\<^verbatim>\<open>f"{x:.1f}"\<close>: the exact value rounded to one decimal, ties to even.\<close>

definition format_1f :: "pyfloat \<Rightarrow> ustr" where
  "format_1f f =
     (case f of
        NaN \<Rightarrow> u ''nan''
      | Infinite neg \<Rightarrow> (if neg then u ''-inf'' else u ''inf'')
      | Finite neg m \<Rightarrow>
          (let t = round_half_even (m * 10)
           in (if neg then u ''-'' else []) @ str_nat (t div 10) @ u ''.'' @ str_nat (t mod 10)))"

text \<open>
  \<^verbatim>\<open>generate_sites.safe_float\<close> and \<^verbatim>\<open>safe_int\<close>. The \<^verbatim>\<open>except\<close> clause catches
  \<^verbatim>\<open>TypeError\<close> and \<^verbatim>\<open>ValueError\<close>; any other exception leaves the function.
\<close>

definition gs_safe_float :: "ustr \<Rightarrow> pyfloat option" where
  "gs_safe_float val = py_float val"

definition gs_safe_int :: "ustr \<Rightarrow> py_error + int option" where
  "gs_safe_int val =
     (case py_float val of
        None \<Rightarrow> Inr None
      | Some f \<Rightarrow>
          (case float_to_int f of
             Inl e \<Rightarrow> (if e = TypeError \<or> e = ValueError then Inr None else Inl e)
           | Inr n \<Rightarrow> Inr (Some (abs n))))"

text \<open>
  \<^verbatim>\<open>build_sites.to_float\<close> and \<^verbatim>\<open>to_int\<close>, on a decoded value (\<^verbatim>\<open>float(None)\<close> is a
  \<^verbatim>\<open>TypeError\<close>, which is caught). In \<^verbatim>\<open>to_int\<close> the conversion \<^verbatim>\<open>int(abs(f))\<close> stands
  outside any \<^verbatim>\<open>try\<close>.
\<close>

definition bs_to_float :: "ustr option \<Rightarrow> pyfloat option" where
  "bs_to_float val = (case val of None \<Rightarrow> None | Some s \<Rightarrow> py_float s)"

definition bs_to_int :: "ustr option \<Rightarrow> py_error + int option" where
  "bs_to_int val =
     (case bs_to_float val of
        None \<Rightarrow> Inr None
      | Some f \<Rightarrow> (case float_to_int (float_abs f) of Inl e \<Rightarrow> Inl e | Inr n \<Rightarrow> Inr (Some n)))"

text \<open>
  The two coercions inside \<^verbatim>\<open>build.parse_store\<close>: the local \<^verbatim>\<open>to_float\<close>, and the
  review count \<^verbatim>\<open>"" if review_value is None else str(abs(int(review_value)))\<close>, whose
  \<^verbatim>\<open>int(...)\<close> stands outside the \<^verbatim>\<open>try\<close>.
\<close>

definition b_to_float :: "ustr \<Rightarrow> pyfloat option" where
  "b_to_float val = py_float val"

definition b_review_count_of :: "ustr \<Rightarrow> py_error + ustr" where
  "b_review_count_of val =
     (case b_to_float val of
        None \<Rightarrow> Inr []
      | Some review_value \<Rightarrow>
          (case float_to_int review_value of Inl e \<Rightarrow> Inl e | Inr n \<Rightarrow> Inr (str_int (abs n))))"

section \<open>Slugs\<close>

text \<open>
  \<^verbatim>\<open>re.sub("[...]+", rep, s)\<close> for a character class given as the predicate \<open>P\<close>: every
  maximal run of code points in the class is replaced by \<open>rep\<close>, from left to right.
\<close>

function sub_runs :: "(nat \<Rightarrow> bool) \<Rightarrow> ustr \<Rightarrow> ustr \<Rightarrow> ustr" where
  "sub_runs P rep [] = []"
| "sub_runs P rep (c # cs) =
     (if P c then rep @ sub_runs P rep (dropWhile P cs) else c # sub_runs P rep cs)"
  by pat_completeness auto
termination
  by (relation "measure (\<lambda>(P, rep, s). length s)") (auto simp: length_dropWhile_le less_Suc_eq_le)

text \<open>
  The class of \<^verbatim>\<open>build.slugify\<close>: \<^verbatim>\<open>a-z\<close>, \<^verbatim>\<open>0-9\<close> and the CJK code points U+4E00 to U+9FFF.
\<close>

definition b_allowed :: "nat \<Rightarrow> bool" where
  "b_allowed c \<longleftrightarrow> (97 \<le> c \<and> c \<le> 122) \<or> (48 \<le> c \<and> c \<le> 57) \<or> (19968 \<le> c \<and> c \<le> 40959)"

text \<open>
  \<^verbatim>\<open>build.slugify\<close>. Python's \<^verbatim>\<open>str.lower\<close> depends on the Unicode case tables, which are
  no part of the repository: it is the parameter \<open>lw\<close>.
\<close>

definition b_slugify :: "(ustr \<Rightarrow> ustr) \<Rightarrow> ustr \<Rightarrow> ustr" where
  "b_slugify lw txt =
     (let t1 = lw txt;
          t2 = sub_runs (\<lambda>c. \<not> b_allowed c) (u ''-'') t1;
          t3 = strip_by (\<lambda>c. c = 45) (sub_runs (\<lambda>c. c = 45) (u ''-'') t2);
          t4 = rstrip_by (\<lambda>c. c = 45) (take 60 t3)
      in if t4 = [] then u ''store'' else t4)"

text \<open>
  \<^verbatim>\<open>generate_sites.slugify\<close>. The class \<^verbatim>\<open>\w\<close> of a Unicode pattern (letters, digits and
  the underscore of every script) is the parameter \<open>isw\<close>.
\<close>

definition gs_slugify :: "(ustr \<Rightarrow> ustr) \<Rightarrow> (nat \<Rightarrow> bool) \<Rightarrow> ustr \<Rightarrow> ustr" where
  "gs_slugify lw isw nm =
     (let s1 = sub_runs (\<lambda>c. \<not> isw c) (u ''-'') (lw (strip nm));
          s2 = strip_by (\<lambda>c. c = 45) (sub_runs (\<lambda>c. c = 45) (u ''-'') s1)
      in if s2 = [] then u ''store'' else s2)"

text \<open>The class \<^verbatim>\<open>[a-zA-Z0-9]\<close> and \<^verbatim>\<open>f"{index:02d}"\<close>, for \<^verbatim>\<open>build_sites.slugify\<close>.\<close>

definition ascii_alnum :: "nat \<Rightarrow> bool" where
  "ascii_alnum c \<longleftrightarrow> (97 \<le> c \<and> c \<le> 122) \<or> (65 \<le> c \<and> c \<le> 90) \<or> (48 \<le> c \<and> c \<le> 57)"

definition format_02d :: "int \<Rightarrow> ustr" where
  "format_02d i = (if length (str_int i) < 2 then 48 # str_int i else str_int i)"

definition bs_slugify :: "(ustr \<Rightarrow> ustr) \<Rightarrow> ustr \<Rightarrow> int \<Rightarrow> ustr" where
  "bs_slugify lw nm index =
     (let base = lw (strip_by (\<lambda>c. c = 45) (sub_runs (\<lambda>c. \<not> ascii_alnum c) (u ''-'') nm))
      in if base = [] then u ''shop-'' @ format_02d index else base)"

text \<open>
  Lowercasing of ASCII text: what \<^verbatim>\<open>str.lower\<close> does on a string of ASCII code points. It
  is the instance of \<open>lw\<close> used where a concrete run is evaluated.
\<close>

definition ascii_lower :: "ustr \<Rightarrow> ustr" where
  "ascii_lower s = map ascii_lower_char s"

section \<open>Records\<close>

text \<open>The dataclass \<^verbatim>\<open>Store\<close> of \<^verbatim>\<open>generate_sites.py\<close>.\<close>

record Store =
  map_url :: ustr
  name :: ustr
  rating :: "pyfloat option"
  review_count :: "int option"
  category :: ustr
  address :: ustr
  status :: ustr
  closing_time :: ustr
  phone :: ustr
  hero_image :: ustr
  avatar_image :: ustr
  review_snippet :: ustr
  slug :: ustr

definition DEFAULT_AVATAR :: ustr where
  "DEFAULT_AVATAR = u ''https://ssl.gstatic.com/local/servicebusiness/default_user.png''"

definition DEFAULT_HERO :: ustr where
  "DEFAULT_HERO = u ''https://ssl.gstatic.com/local/generic/default_logo.png''"

text \<open>The local \<^verbatim>\<open>get\<close> of \<^verbatim>\<open>generate_sites.row_to_store\<close>.\<close>

definition gs_get :: "ustr list \<Rightarrow> nat \<Rightarrow> ustr" where
  "gs_get row index = (if length row > index then row ! index else [])"

text \<open>\<^verbatim>\<open>x or default\<close> for strings.\<close>

definition or_default :: "ustr \<Rightarrow> ustr \<Rightarrow> ustr" where
  "or_default x d = (if x = [] then d else x)"

text \<open>
  \<^verbatim>\<open>generate_sites.row_to_store\<close>: \<open>Inr None\<close> is the returned \<^verbatim>\<open>None\<close>. The only call that
  can raise is \<^verbatim>\<open>safe_int\<close>.
\<close>

definition gs_row_to_store :: "(ustr \<Rightarrow> ustr) \<Rightarrow> (nat \<Rightarrow> bool) \<Rightarrow> ustr list \<Rightarrow> py_error + Store option" where
  "gs_row_to_store lw isw row =
     (if length row < 2 then Inr None
      else
        (let nm = strip (gs_get row 5) in
         if nm = [] then Inr None
         else
           (case gs_safe_int (strip (gs_get row 7)) of
              Inl e \<Rightarrow> Inl e
            | Inr rc \<Rightarrow>
                Inr (Some \<lparr>
                  map_url = strip (gs_get row 4),
                  name = nm,
                  rating = gs_safe_float (strip (gs_get row 6)),
                  review_count = rc,
                  category = strip (gs_get row 8),
                  address = strip (gs_get row 11),
                  status = strip (gs_get row 12),
                  closing_time = strip (gs_get row 13),
                  phone = strip (gs_get row 15),
                  hero_image = or_default (strip (gs_get row 16)) DEFAULT_HERO,
                  avatar_image = or_default (strip (gs_get row 17)) DEFAULT_AVATAR,
                  review_snippet = strip (concat (map strip (filter (\<lambda>part. part \<noteq> []) (drop 18 row)))),
                  slug = gs_slugify lw isw nm \<rparr>))))"

text \<open>
  The record list of \<^verbatim>\<open>generate_sites.load_stores\<close>, from the decoded rows: the header
  row is dropped, every other row is mapped, and the rows mapped to \<^verbatim>\<open>None\<close> are left out.
\<close>

definition gs_stores_of_rows :: "(ustr \<Rightarrow> ustr) \<Rightarrow> (nat \<Rightarrow> bool) \<Rightarrow> ustr list list \<Rightarrow> py_error + Store list" where
  "gs_stores_of_rows lw isw rows =
     (case map_result (gs_row_to_store lw isw) (drop 1 rows) of
        Inl e \<Rightarrow> Inl e
      | Inr stores \<Rightarrow> Inr (List.map_filter (\<lambda>s. s) stores))"

definition gs_load_stores :: "(ustr \<Rightarrow> ustr) \<Rightarrow> (nat \<Rightarrow> bool) \<Rightarrow> xml \<Rightarrow> xml \<Rightarrow> py_error + Store list" where
  "gs_load_stores lw isw shared_root sheet_root =
     (case gs_load_sheet_rows shared_root sheet_root of
        Inl e \<Rightarrow> Inl e
      | Inr rows \<Rightarrow> gs_stores_of_rows lw isw rows)"

text \<open>
  The dictionary \<^verbatim>\<open>build.parse_store\<close> returns, as a record of its thirteen keys (each
  prefixed with \<open>b_\<close>).
\<close>

record b_store =
  b_name :: ustr
  b_slug :: ustr
  b_map_url :: ustr
  b_rating :: ustr
  b_review_count :: ustr
  b_category :: ustr
  b_address :: ustr
  b_status :: ustr
  b_closing :: ustr
  b_phone :: ustr
  b_image_url :: ustr
  b_default_avatar :: ustr
  b_snippet :: ustr

text \<open>The local \<^verbatim>\<open>get\<close> of \<^verbatim>\<open>build.parse_store\<close>.\<close>

definition b_get :: "ustr list \<Rightarrow> nat \<Rightarrow> ustr" where
  "b_get row index = (if index < length row then row ! index else [])"

text \<open>\<^verbatim>\<open>s.startswith(p)\<close> and \<^verbatim>\<open>s.replace(old, new)\<close>.\<close>

definition startswith :: "ustr \<Rightarrow> ustr \<Rightarrow> bool" where
  "startswith s p \<longleftrightarrow> take (length p) s = p"

function replace_all :: "ustr \<Rightarrow> ustr \<Rightarrow> ustr \<Rightarrow> ustr" where
  "replace_all old new s =
     (if old = [] then new @ concat (map (\<lambda>c. c # new) s)
      else if s = [] then []
      else if take (length old) s = old then new @ replace_all old new (drop (length old) s)
      else hd s # replace_all old new (tl s))"
  by pat_completeness auto
termination
  by (relation "measure (\<lambda>(old, new, s). length s)") auto

text \<open>The placeholder name of \<^verbatim>\<open>build.parse_store\<close>, six CJK code points.\<close>

definition UNNAMED :: ustr where
  "UNNAMED = [26410, 21629, 21517, 27700, 38651, 34892]"

text \<open>
  \<^verbatim>\<open>build.parse_store\<close>, on a row of strings. It returns a record for every row; the
  conversion of the review count can raise.
\<close>

definition b_parse_store :: "(ustr \<Rightarrow> ustr) \<Rightarrow> ustr list \<Rightarrow> py_error + b_store" where
  "b_parse_store lw row =
     (let nm0 = b_get row 1;
          nm = (if nm0 = [] \<or> startswith nm0 (u ''http'') then UNNAMED else nm0);
          rt = (case b_to_float (b_get row 2) of None \<Rightarrow> u ''N/A'' | Some rating_value \<Rightarrow> format_1f rating_value)
      in case b_review_count_of (b_get row 3) of
           Inl e \<Rightarrow> Inl e
         | Inr rc \<Rightarrow>
             Inr \<lparr>
               b_name = nm,
               b_slug = b_slugify lw nm,
               b_map_url = b_get row 0,
               b_rating = rt,
               b_review_count = rc,
               b_category = b_get row 4,
               b_address = b_get row 7,
               b_status = b_get row 8,
               b_closing = lstrip_by (\<lambda>c. c = 183 \<or> c = 32) (b_get row 9),
               b_phone = b_get row 11,
               b_image_url = b_get row 12,
               b_default_avatar = b_get row 13,
               b_snippet =
                 strip (replace_all (u ''_x000D_'') (u '' '') (concat (map (b_get row) [14..<length row]))) \<rparr>)"

text \<open>
  The record list of \<^verbatim>\<open>build.main\<close>, from the decoded rows:
  \<^verbatim>\<open>[parse_store(row) for row in rows[1:]]\<close>.
\<close>

definition b_stores_of_rows :: "(ustr \<Rightarrow> ustr) \<Rightarrow> ustr list list \<Rightarrow> py_error + b_store list" where
  "b_stores_of_rows lw rows = map_result (b_parse_store lw) (drop 1 rows)"

section \<open>Rendering\<close>

text \<open>
  \<^verbatim>\<open>html.escape(s)\<close>: the ampersand, the angle brackets and both quotes become
  character references.
\<close>

definition html_escape_char :: "nat \<Rightarrow> ustr" where
  "html_escape_char c =
     (if c = 38 then u ''&amp;''
      else if c = 60 then u ''&lt;''
      else if c = 62 then u ''&gt;''
      else if c = 34 then u ''&quot;''
      else if c = 39 then u ''&#x27;''
      else [c])"

definition html_escape :: "ustr \<Rightarrow> ustr" where
  "html_escape s = concat (map html_escape_char s)"

text \<open>\<^verbatim>\<open>sep.join(xs)\<close>.\<close>

fun join_with :: "ustr \<Rightarrow> ustr list \<Rightarrow> ustr" where
  "join_with sep [] = []"
| "join_with sep [x] = x"
| "join_with sep (x # y # ys) = x @ sep @ join_with sep (y # ys)"

text \<open>
  The templates of \<^verbatim>\<open>generate_sites.py\<close>, text for text; code points outside ASCII are
  written as numbers. \<open>PAGE_TEMPLATE_format\<close> is \<^verbatim>\<open>PAGE_TEMPLATE.format(...)\<close> with its four
  keyword arguments, \<open>gs_card\<close> the card \<^verbatim>\<open>render_index\<close> builds for one store.
\<close>

definition PAGE_TEMPLATE_format :: "ustr \<Rightarrow> ustr \<Rightarrow> ustr \<Rightarrow> ustr \<Rightarrow> ustr" where
  "PAGE_TEMPLATE_format title description content asset_prefix =
     u ''<!doctype html>\<newline>''
     @ u ''<html lang='zh-Hant'>\<newline>''
     @ u ''<head>\<newline>''
     @ u ''  <meta charset='utf-8'>\<newline>''
     @ u ''  <meta name='viewport' content='width=device-width, initial-scale=1'>\<newline>''
     @ u ''  <title>''
     @ title
     @ u ''</title>\<newline>''
     @ u ''  <meta name='description' content=''
     @ [39]
     @ description
     @ [39]
     @ u ''>\<newline>''
     @ u ''  <link rel='stylesheet' href=''
     @ [39]
     @ asset_prefix
     @ u ''assets/site.css'>\<newline>''
     @ u ''</head>\<newline>''
     @ u ''<body>\<newline>''
     @ u ''  <nav class='topbar'>\<newline>''
     @ u ''    <div class='brand'>''
     @ [22763, 26519, 27700, 38651, 34892, 36039, 26009, 38598]
     @ u ''</div>\<newline>''
     @ u ''    <a class='topbar__link' href='https://github.com/'>GitHub Pages</a>\<newline>''
     @ u ''  </nav>\<newline>''
     @ u ''  <main class='container'>\<newline>''
     @ u ''    ''
     @ content
     @ u ''\<newline>''
     @ u ''  </main>\<newline>''
     @ u ''  <footer class='footer'>\<newline>''
     @ u ''    ''
     @ [20197]
     @ u '' Excel ''
     @ [33258, 21205, 29983, 25104, 30340, 38748, 24907, 32178, 31449, 65292, 37096, 32626, 33267]
     @ u '' GitHub Pages ''
     @ [21363, 21487, 28687, 35261, 12290]
     @ u ''\<newline>''
     @ u ''  </footer>\<newline>''
     @ u ''</body>\<newline>''
     @ u ''</html>\<newline>''"

definition gs_rating_text :: "Store \<Rightarrow> ustr" where
  "gs_rating_text store =
     (case rating store of
        None \<Rightarrow> u ''N/A''
      | Some r \<Rightarrow> format_1f r)"

definition gs_reviews_text :: "Store \<Rightarrow> ustr" where
  "gs_reviews_text store =
     (case review_count store of
        None \<Rightarrow> []
      | Some n \<Rightarrow> [65288]
          @ str_int n
          @ u '' ''
          @ [21063, 35413, 35542, 65289])"

definition gs_review_section :: "Store \<Rightarrow> ustr" where
  "gs_review_section store =
     (if review_snippet store \<noteq> [] then
        u ''<p class='snippet'>''
        @ html_escape (review_snippet store)
        @ u ''</p>''
      else
        u ''<p class='snippet'>''
        @ [23578, 28961, 35413, 35542, 25688, 37636]
        @ u ''</p>'')"

definition gs_render_detail :: "Store \<Rightarrow> ustr" where
  "gs_render_detail store =
     PAGE_TEMPLATE_format
       (name store
        @ [65372, 22763, 26519, 27700, 38651, 34892, 25351, 21335])
       (name store
        @ u '' ''
        @ [30340, 26381, 21209, 36039, 35338, 33287, 32879, 32097, 26041, 24335, 12290])
       (u ''\<newline>''
        @ u ''        <article class='detail'>\<newline>''
        @ u ''          <header class='detail__header'>\<newline>''
        @ u ''            <img src=''
        @ [39]
        @ html_escape (hero_image store)
        @ [39]
        @ u '' alt=''
        @ [39]
        @ html_escape (name store)
        @ u '' ''
        @ [24215, 38754, 22294, 29255, 39]
        @ u '' class='hero hero--large'>\<newline>''
        @ u ''            <div>\<newline>''
        @ u ''              <p class='kicker'>''
        @ html_escape (category store)
        @ u ''</p>\<newline>''
        @ u ''              <h1>''
        @ html_escape (name store)
        @ u ''</h1>\<newline>''
        @ u ''              <p class='meta'>''
        @ [35413, 20998]
        @ u '' ''
        @ gs_rating_text store
        @ u '' ''
        @ gs_reviews_text store
        @ u ''</p>\<newline>''
        @ u ''            </div>\<newline>''
        @ u ''          </header>\<newline>''
        @ u ''          <section class='info'>\<newline>''
        @ u ''            <h2>''
        @ [24215, 23478, 36039, 35338]
        @ u ''</h2>\<newline>''
        @ u ''            <ul>\<newline>''
        @ u ''              <li>''
        @ [128205]
        @ u '' ''
        @ [22320, 22336, 65306]
        @ html_escape (address store)
        @ u ''</li>\<newline>''
        @ u ''              <li>''
        @ [9200]
        @ u '' ''
        @ [29151, 26989, 36039, 35338, 65306]
        @ html_escape (status store)
        @ u '' ''
        @ html_escape (closing_time store)
        @ u ''</li>\<newline>''
        @ u ''              <li>''
        @ [9742, 65039]
        @ u '' ''
        @ [38651, 35441, 65306]
        @ u ''<a href='tel:''
        @ html_escape (phone store)
        @ [39]
        @ u ''>''
        @ html_escape (phone store)
        @ u ''</a></li>\<newline>''
        @ u ''              <li>''
        @ [128506, 65039]
        @ u '' ''
        @ [22320, 22294, 65306]
        @ u ''<a href=''
        @ [39]
        @ html_escape (map_url store)
        @ [39]
        @ u '' target='_blank' rel='noopener'>''
        @ [22312]
        @ u '' Google ''
        @ [22320, 22294, 38283, 21855]
        @ u ''</a></li>\<newline>''
        @ u ''            </ul>\<newline>''
        @ u ''          </section>\<newline>''
        @ u ''          <section class='info'>\<newline>''
        @ u ''            <h2>''
        @ [39015, 23458, 35413, 35542, 25688, 37636]
        @ u ''</h2>\<newline>''
        @ u ''            ''
        @ gs_review_section store
        @ u ''\<newline>''
        @ u ''          </section>\<newline>''
        @ u ''          <section class='info avatar'>\<newline>''
        @ u ''            <img src=''
        @ [39]
        @ html_escape (avatar_image store)
        @ [39]
        @ u '' alt=''
        @ [39]
        @ html_escape (name store)
        @ u '' ''
        @ [30340, 20195, 34920, 38957, 20687, 39]
        @ u ''>\<newline>''
        @ u ''            <div>\<newline>''
        @ u ''              <p>''
        @ [32178, 31449, 30001]
        @ u '' Excel ''
        @ [36039, 26009, 33258, 21205, 29983, 25104, 65292, 20415, 26044, 36879, 36942]
        @ u '' GitHub Pages ''
        @ [24555, 36895, 30332, 24067, 12290]
        @ u ''</p>\<newline>''
        @ u ''              <p><a class='button' href='../index.html'>''
        @ [36820, 22238, 21015, 34920]
        @ u ''</a></p>\<newline>''
        @ u ''            </div>\<newline>''
        @ u ''          </section>\<newline>''
        @ u ''        </article>\<newline>''
        @ u ''        '')
       (u ''../'')"

definition gs_index_snippet :: "Store \<Rightarrow> ustr" where
  "gs_index_snippet store =
     html_escape (or_default (review_snippet store) ([23578, 28961, 35413, 35542, 25688, 37636]))"

definition gs_card :: "Store \<Rightarrow> ustr" where
  "gs_card store =
     u ''\<newline>''
     @ u ''            <article class='card'>\<newline>''
     @ u ''              <img src=''
     @ [39]
     @ html_escape (hero_image store)
     @ [39]
     @ u '' alt=''
     @ [39]
     @ html_escape (name store)
     @ u '' ''
     @ [24215, 38754, 22294, 29255, 39]
     @ u '' class='hero'>\<newline>''
     @ u ''              <div class='card__body'>\<newline>''
     @ u ''                <h2>''
     @ html_escape (name store)
     @ u ''</h2>\<newline>''
     @ u ''                <p class='meta'>''
     @ html_escape (category store)
     @ u '' ''
     @ [183]
     @ u '' ''
     @ [35413, 20998]
     @ u '' ''
     @ gs_rating_text store
     @ u '' ''
     @ gs_reviews_text store
     @ u ''</p>\<newline>''
     @ u ''                <p class='address'>''
     @ [128205]
     @ u '' ''
     @ html_escape (address store)
     @ u ''</p>\<newline>''
     @ u ''                <p class='status'>''
     @ html_escape (status store)
     @ u '' ''
     @ html_escape (closing_time store)
     @ u ''</p>\<newline>''
     @ u ''                <p class='snippet'>''
     @ gs_index_snippet store
     @ u ''</p>\<newline>''
     @ u ''                <div class='actions'>\<newline>''
     @ u ''                  <a class='button' href='stores/''
     @ slug store
     @ u ''.html'>''
     @ [26597, 30475, 35443, 24773]
     @ u ''</a>\<newline>''
     @ u ''                  <a class='button button--ghost' href=''
     @ [39]
     @ html_escape (map_url store)
     @ [39]
     @ u '' target='_blank' rel='noopener'>Google ''
     @ [22320, 22294]
     @ u ''</a>\<newline>''
     @ u ''                </div>\<newline>''
     @ u ''              </div>\<newline>''
     @ u ''            </article>\<newline>''
     @ u ''            ''"

definition gs_render_index :: "Store list \<Rightarrow> ustr" where
  "gs_render_index stores =
     PAGE_TEMPLATE_format
       ([22763, 26519, 27700, 38651, 34892, 25351, 21335])
       ([24478]
        @ u '' Excel ''
        @ [29986, 29983, 30340, 27700, 38651, 34892, 28165, 21934, 65292, 40670, 25802, 21345, 29255, 21487, 28687, 35261]
        @ [21508, 24215, 29544, 31435, 38913, 38754, 12290])
       (join_with [10] (map gs_card stores))
       ([])"

text \<open>
  The templates of \<^verbatim>\<open>build.py\<close> (\<^verbatim>\<open>build_card\<close>, \<^verbatim>\<open>render_index\<close>, \<^verbatim>\<open>render_store\<close>) with the
  small texts they are assembled from, its stylesheet \<^verbatim>\<open>STYLE\<close>, and the stylesheet
  \<^verbatim>\<open>STYLE_CSS\<close> of \<^verbatim>\<open>generate_sites.py\<close>.
\<close>

definition b_rating_block :: \<open>b_store \<Rightarrow> ustr\<close> where
  \<open>b_rating_block store =
     (if b_rating store \<noteq> u ''N/A'' then
        u ''<strong>''
        @ html_escape (b_rating store)
        @ u ''</strong>''
      else u ''N/A'')\<close>

definition b_reviews :: \<open>b_store \<Rightarrow> ustr\<close> where
  \<open>b_reviews store =
     (if b_review_count store \<noteq> [] then
        [65288]
        @ b_review_count store
        @ u '' ''
        @ [21063, 35413, 35542, 65289]
      else [])\<close>

definition b_status_text :: \<open>b_store \<Rightarrow> ustr\<close> where
  \<open>b_status_text store =
     join_with (u '' ''
     @ [183]
     @ u '' '')
       (filter (\<lambda>part. part \<noteq> []) [b_status store, b_closing store])\<close>

definition b_build_card :: \<open>b_store \<Rightarrow> ustr\<close> where
  \<open>b_build_card store =
     u ''\<newline>''
     @ u ''    <article class="card">\<newline>''
     @ u ''      <img src="''
     @ html_escape (or_default (b_image_url store) (b_default_avatar store))
     @ u ''" alt="''
     @ html_escape (b_name store)
     @ u ''" loading="lazy" />\<newline>''
     @ u ''      <div class="card__body">\<newline>''
     @ u ''        <h2><a href="stores/''
     @ b_slug store
     @ u ''/index.html">''
     @ html_escape (b_name store)
     @ u ''</a></h2>\<newline>''
     @ u ''        <p class="card__meta">''
     @ b_rating_block store
     @ u '' ''
     @ b_reviews store
     @ u ''</p>\<newline>''
     @ u ''        <p class="card__meta">''
     @ html_escape (b_category store)
     @ u ''</p>\<newline>''
     @ u ''        <p>''
     @ html_escape (b_address store)
     @ u ''</p>\<newline>''
     @ u ''        <p class="card__status">''
     @ html_escape (b_status_text store)
     @ u ''</p>\<newline>''
     @ u ''        <div class="card__actions">\<newline>''
     @ u ''          <a class="button" href="stores/''
     @ b_slug store
     @ u ''/index.html">''
     @ [27298, 35222, 24215, 23478, 38913, 38754]
     @ u ''</a>\<newline>''
     @ u ''          <a class="button button--ghost" href="''
     @ html_escape (b_map_url store)
     @ u ''">''
     @ [26597, 30475, 22320, 22294]
     @ u ''</a>\<newline>''
     @ u ''        </div>\<newline>''
     @ u ''      </div>\<newline>''
     @ u ''    </article>\<newline>''
     @ u ''    ''\<close>

definition b_render_index :: \<open>b_store list \<Rightarrow> ustr\<close> where
  \<open>b_render_index stores =
     (let cards = join_with (u ''\<newline>'') (map b_build_card stores)
      in u ''<!doctype html>\<newline>''
         @ u ''<html lang="zh-Hant">\<newline>''
         @ u ''<head>\<newline>''
         @ u ''  <meta charset="utf-8" />\<newline>''
         @ u ''  <meta name="viewport" content="width=device-width, initial-scale=1" />''
         @ u ''\<newline>''
         @ u ''  <title>''
         @ [27700, 38651, 34892, 21015, 34920]
         @ u ''</title>\<newline>''
         @ u ''  <link rel="stylesheet" href="assets/style.css" />\<newline>''
         @ u ''</head>\<newline>''
         @ u ''<body>\<newline>''
         @ u ''  <header class="hero">\<newline>''
         @ u ''    <div class="hero__content">\<newline>''
         @ u ''      <p class="eyebrow">GitHub Pages</p>\<newline>''
         @ u ''      <h1>''
         @ [27700, 38651, 34892, 23567, 30334, 31185]
         @ u ''</h1>\<newline>''
         @ u ''      <p>''
         @ [27599, 19968, 23478, 27700, 38651, 34892, 37117, 26377, 33258, 24049, 30340, 29544, 31435, 20171, 32057, 38913]
         @ [38754, 65292, 40670, 25802, 21345, 29255, 21363, 21487, 21069, 24448, 12290]
         @ u ''</p>\<newline>''
         @ u ''    </div>\<newline>''
         @ u ''  </header>\<newline>''
         @ u ''  <main class="grid">\<newline>''
         @ u ''    ''
         @ cards
         @ u ''\<newline>''
         @ u ''  </main>\<newline>''
         @ u ''</body>\<newline>''
         @ u ''</html>\<newline>'')\<close>

definition b_review_text :: \<open>b_store \<Rightarrow> ustr\<close> where
  \<open>b_review_text store =
     (if b_review_count store \<noteq> [] then
        [20849, 26377]
        @ u '' ''
        @ b_review_count store
        @ u '' ''
        @ [21063, 35413, 35542]
      else [])\<close>

definition b_snippet_text :: \<open>b_store \<Rightarrow> ustr\<close> where
  \<open>b_snippet_text store =
     (if b_snippet store \<noteq> [] then html_escape (b_snippet store)
      else [26283, 28961, 35413, 35542, 25688, 37636])\<close>

definition b_phone_line :: \<open>b_store \<Rightarrow> ustr\<close> where
  \<open>b_phone_line store =
     (if b_phone store \<noteq> [] then
        u ''<p><strong>''
        @ [38651, 35441, 65306]
        @ u ''</strong>''
        @ html_escape (b_phone store)
        @ u ''</p>''
      else [])\<close>

definition b_render_store :: \<open>b_store \<Rightarrow> ustr\<close> where
  \<open>b_render_store store =
     u ''<!doctype html>\<newline>''
     @ u ''<html lang="zh-Hant">\<newline>''
     @ u ''<head>\<newline>''
     @ u ''  <meta charset="utf-8" />\<newline>''
     @ u ''  <meta name="viewport" content="width=device-width, initial-scale=1" />''
     @ u ''\<newline>''
     @ u ''  <title>''
     @ html_escape (b_name store)
     @ u ''</title>\<newline>''
     @ u ''  <link rel="stylesheet" href="../assets/style.css" />\<newline>''
     @ u ''</head>\<newline>''
     @ u ''<body class="store-page">\<newline>''
     @ u ''  <div class="store">\<newline>''
     @ u ''    <a class="back-link" href="../index.html">''
     @ [8592]
     @ u '' ''
     @ [36820, 22238, 21015, 34920]
     @ u ''</a>\<newline>''
     @ u ''    <header>\<newline>''
     @ u ''      <h1>''
     @ html_escape (b_name store)
     @ u ''</h1>\<newline>''
     @ u ''      <p class="store__meta">''
     @ html_escape (b_category store)
     @ u ''</p>\<newline>''
     @ u ''      <p class="store__meta">''
     @ [11088]
     @ u '' ''
     @ html_escape (b_rating store)
     @ u '' ''
     @ b_review_text store
     @ u ''</p>\<newline>''
     @ u ''      <p class="store__meta">''
     @ html_escape (b_status_text store)
     @ u ''</p>\<newline>''
     @ u ''      <p>''
     @ html_escape (b_address store)
     @ u ''</p>\<newline>''
     @ u ''      ''
     @ b_phone_line store
     @ u ''\<newline>''
     @ u ''      <p><a class="button" href="''
     @ html_escape (b_map_url store)
     @ u ''">''
     @ [22312]
     @ u '' Google ''
     @ [22320, 22294, 26597, 30475]
     @ u ''</a></p>\<newline>''
     @ u ''    </header>\<newline>''
     @ u ''    <img class="store__image" src="''
     @ html_escape (or_default (b_image_url store) (b_default_avatar store))
     @ u ''" alt="''
     @ html_escape (b_name store)
     @ u ''" loading="lazy" />\<newline>''
     @ u ''    <section class="store__section">\<newline>''
     @ u ''      <h2>''
     @ [39015, 23458, 22238, 39243]
     @ u ''</h2>\<newline>''
     @ u ''      <p>''
     @ b_snippet_text store
     @ u ''</p>\<newline>''
     @ u ''    </section>\<newline>''
     @ u ''  </div>\<newline>''
     @ u ''</body>\<newline>''
     @ u ''</html>\<newline>''\<close>

definition STYLE :: ustr where
  \<open>STYLE =
     u ''\<newline>''
     @ u '':root {\<newline>''
     @ u ''  --bg: #0f172a;\<newline>''
     @ u ''  --panel: #111827;\<newline>''
     @ u ''  --text: #e2e8f0;\<newline>''
     @ u ''  --muted: #94a3b8;\<newline>''
     @ u ''  --accent: #38bdf8;\<newline>''
     @ u ''  --border: #1f2937;\<newline>''
     @ u ''  --radius: 16px;\<newline>''
     @ u ''  font-family: 'Noto Sans TC', 'Inter', system-ui, -apple-system, sans-s''
     @ u ''erif;\<newline>''
     @ u ''}\<newline>''
     @ u ''\<newline>''
     @ u ''* { box-sizing: border-box; }\<newline>''
     @ u ''body { margin: 0; background: var(--bg); color: var(--text); }\<newline>''
     @ u ''a { color: var(--accent); text-decoration: none; }\<newline>''
     @ u ''a:hover { text-decoration: underline; }\<newline>''
     @ u ''\<newline>''
     @ u ''.hero {\<newline>''
     @ u ''  background: radial-gradient(circle at 20% 20%, rgba(56,189,248,0.15), ''
     @ u ''transparent 40%),\<newline>''
     @ u ''              radial-gradient(circle at 80% 0%, rgba(94,234,212,0.1), tr''
     @ u ''ansparent 30%),\<newline>''
     @ u ''              linear-gradient(135deg, #0b1224, #0f172a);\<newline>''
     @ u ''  padding: 64px 24px;\<newline>''
     @ u ''}\<newline>''
     @ u ''.hero__content { max-width: 960px; margin: 0 auto; }\<newline>''
     @ u ''.hero h1 { font-size: 2.4rem; margin: 8px 0; }\<newline>''
     @ u ''.hero p { color: var(--muted); }\<newline>''
     @ u ''.eyebrow { text-transform: uppercase; letter-spacing: 0.1em; font-size: ''
     @ u ''0.75rem; color: var(--accent); }\<newline>''
     @ u ''\<newline>''
     @ u ''.grid {\<newline>''
     @ u ''  display: grid;\<newline>''
     @ u ''  grid-template-columns: repeat(auto-fit, minmax(280px, 1fr));\<newline>''
     @ u ''  gap: 20px;\<newline>''
     @ u ''  padding: 24px;\<newline>''
     @ u ''  max-width: 1200px;\<newline>''
     @ u ''  margin: 0 auto;\<newline>''
     @ u ''}\<newline>''
     @ u ''\<newline>''
     @ u ''.card {\<newline>''
     @ u ''  background: var(--panel);\<newline>''
     @ u ''  border: 1px solid var(--border);\<newline>''
     @ u ''  border-radius: var(--radius);\<newline>''
     @ u ''  overflow: hidden;\<newline>''
     @ u ''  display: flex;\<newline>''
     @ u ''  flex-direction: column;\<newline>''
     @ u ''  box-shadow: 0 10px 40px rgba(0,0,0,0.35);\<newline>''
     @ u ''}\<newline>''
     @ u ''.card img { width: 100%; height: 180px; object-fit: cover; }\<newline>''
     @ u ''.card__body { padding: 16px; display: flex; flex-direction: column; gap:''
     @ u '' 8px; flex: 1; }\<newline>''
     @ u ''.card__meta { color: var(--muted); margin: 0; }\<newline>''
     @ u ''.card__status { color: #4ade80; }\<newline>''
     @ u ''.card__actions { margin-top: auto; display: flex; gap: 8px; flex-wrap: w''
     @ u ''rap; }\<newline>''
     @ u ''\<newline>''
     @ u ''.button {\<newline>''
     @ u ''  display: inline-block;\<newline>''
     @ u ''  padding: 8px 12px;\<newline>''
     @ u ''  border-radius: 999px;\<newline>''
     @ u ''  background: var(--accent);\<newline>''
     @ u ''  color: #0b1224;\<newline>''
     @ u ''  font-weight: 600;\<newline>''
     @ u ''}\<newline>''
     @ u ''.button--ghost {\<newline>''
     @ u ''  background: transparent;\<newline>''
     @ u ''  border: 1px solid var(--border);\<newline>''
     @ u ''  color: var(--text);\<newline>''
     @ u ''}\<newline>''
     @ u ''\<newline>''
     @ u ''.store-page { background: radial-gradient(circle at 10% 20%, rgba(56,189''
     @ u '',248,0.2), transparent 25%), #0b1224; }\<newline>''
     @ u ''.store {\<newline>''
     @ u ''  max-width: 800px;\<newline>''
     @ u ''  margin: 24px auto;\<newline>''
     @ u ''  padding: 24px;\<newline>''
     @ u ''  background: var(--panel);\<newline>''
     @ u ''  border: 1px solid var(--border);\<newline>''
     @ u ''  border-radius: var(--radius);\<newline>''
     @ u ''  box-shadow: 0 10px 40px rgba(0,0,0,0.35);\<newline>''
     @ u ''}\<newline>''
     @ u ''.store h1 { margin-top: 8px; }\<newline>''
     @ u ''.store__meta { color: var(--muted); margin: 4px 0; }\<newline>''
     @ u ''.store__image { width: 100%; border-radius: 12px; object-fit: cover; mar''
     @ u ''gin: 16px 0; }\<newline>''
     @ u ''.store__section h2 { margin-bottom: 8px; }\<newline>''
     @ u ''.back-link { color: var(--muted); }\<newline>''\<close>

definition STYLE_CSS :: ustr where
  \<open>STYLE_CSS =
     u ''\<newline>''
     @ u '':root {\<newline>''
     @ u ''  --bg: #0e1117;\<newline>''
     @ u ''  --card: #161b22;\<newline>''
     @ u ''  --text: #e6edf3;\<newline>''
     @ u ''  --muted: #9ba3b4;\<newline>''
     @ u ''  --accent: #8dd0ff;\<newline>''
     @ u ''  --border: #30363d;\<newline>''
     @ u ''  --shadow: 0 10px 30px rgba(0,0,0,0.35);\<newline>''
     @ u ''  font-family: "Noto Sans TC", "Inter", "Segoe UI", system-ui, sans-seri''
     @ u ''f;\<newline>''
     @ u ''}\<newline>''
     @ u ''\<newline>''
     @ u ''* { box-sizing: border-box; }\<newline>''
     @ u ''body {\<newline>''
     @ u ''  margin: 0;\<newline>''
     @ u ''  background: var(--bg);\<newline>''
     @ u ''  color: var(--text);\<newline>''
     @ u ''}\<newline>''
     @ u ''\<newline>''
     @ u ''.topbar {\<newline>''
     @ u ''  display: flex;\<newline>''
     @ u ''  justify-content: space-between;\<newline>''
     @ u ''  align-items: center;\<newline>''
     @ u ''  padding: 16px 24px;\<newline>''
     @ u ''  border-bottom: 1px solid var(--border);\<newline>''
     @ u ''  background: rgba(12,16,22,0.9);\<newline>''
     @ u ''  position: sticky;\<newline>''
     @ u ''  top: 0;\<newline>''
     @ u ''  z-index: 5;\<newline>''
     @ u ''  backdrop-filter: blur(10px);\<newline>''
     @ u ''}\<newline>''
     @ u ''\<newline>''
     @ u ''.brand { font-weight: 700; letter-spacing: 0.02em; }\<newline>''
     @ u ''.topbar__link { color: var(--accent); text-decoration: none; }\<newline>''
     @ u ''\<newline>''
     @ u ''.container {\<newline>''
     @ u ''  padding: 32px 24px 80px;\<newline>''
     @ u ''  max-width: 1200px;\<newline>''
     @ u ''  margin: auto;\<newline>''
     @ u ''  display: grid;\<newline>''
     @ u ''  grid-template-columns: repeat(auto-fit, minmax(280px, 1fr));\<newline>''
     @ u ''  gap: 20px;\<newline>''
     @ u ''}\<newline>''
     @ u ''\<newline>''
     @ u ''.card, .detail {\<newline>''
     @ u ''  background: var(--card);\<newline>''
     @ u ''  border: 1px solid var(--border);\<newline>''
     @ u ''  border-radius: 16px;\<newline>''
     @ u ''  box-shadow: var(--shadow);\<newline>''
     @ u ''  overflow: hidden;\<newline>''
     @ u ''}\<newline>''
     @ u ''\<newline>''
     @ u ''.card__body { padding: 16px; display: flex; flex-direction: column; gap:''
     @ u '' 6px; }\<newline>''
     @ u ''.card h2 { margin: 0; }\<newline>''
     @ u ''.hero {\<newline>''
     @ u ''  width: 100%;\<newline>''
     @ u ''  height: 180px;\<newline>''
     @ u ''  object-fit: cover;\<newline>''
     @ u ''  background: #111;\<newline>''
     @ u ''}\<newline>''
     @ u ''.hero--large { height: 260px; }\<newline>''
     @ u ''\<newline>''
     @ u ''.meta { color: var(--muted); font-size: 14px; }\<newline>''
     @ u ''.address, .status { margin: 0; font-size: 15px; }\<newline>''
     @ u ''.snippet { color: var(--muted); }\<newline>''
     @ u ''.actions { display: flex; gap: 8px; margin-top: 6px; flex-wrap: wrap; }\<newline>''
     @ u ''.button {\<newline>''
     @ u ''  display: inline-block;\<newline>''
     @ u ''  padding: 8px 12px;\<newline>''
     @ u ''  border-radius: 10px;\<newline>''
     @ u ''  background: var(--accent);\<newline>''
     @ u ''  color: #0a0c10;\<newline>''
     @ u ''  font-weight: 600;\<newline>''
     @ u ''  text-decoration: none;\<newline>''
     @ u ''  box-shadow: 0 8px 18px rgba(141,208,255,0.25);\<newline>''
     @ u ''}\<newline>''
     @ u ''.button--ghost { background: transparent; color: var(--accent); border: ''
     @ u ''1px solid var(--accent); box-shadow: none; }\<newline>''
     @ u ''\<newline>''
     @ u ''.footer {\<newline>''
     @ u ''  padding: 24px;\<newline>''
     @ u ''  text-align: center;\<newline>''
     @ u ''  color: var(--muted);\<newline>''
     @ u ''  border-top: 1px solid var(--border);\<newline>''
     @ u ''  background: #0a0c10;\<newline>''
     @ u ''}\<newline>''
     @ u ''\<newline>''
     @ u ''.detail { grid-column: 1 / -1; padding: 0 0 24px; }\<newline>''
     @ u ''.detail__header { display: grid; grid-template-columns: 1fr; gap: 12px; ''
     @ u ''}\<newline>''
     @ u ''.detail__header h1 { margin: 4px 0; }\<newline>''
     @ u ''.kicker { color: var(--muted); margin: 0; text-transform: uppercase; let''
     @ u ''ter-spacing: 0.08em; }\<newline>''
     @ u ''.info { padding: 0 24px; margin-top: 12px; }\<newline>''
     @ u ''.info ul { list-style: none; padding: 0; margin: 0; display: grid; gap: ''
     @ u ''6px; }\<newline>''
     @ u ''.info li { color: var(--muted); }\<newline>''
     @ u ''.avatar { display: grid; grid-template-columns: 96px 1fr; align-items: c''
     @ u ''enter; gap: 12px; }\<newline>''
     @ u ''.avatar img { width: 96px; height: 96px; border-radius: 50%; object-fit:''
     @ u '' cover; border: 1px solid var(--border); }\<newline>''
     @ u ''\<newline>''
     @ u ''@media (min-width: 820px) {\<newline>''
     @ u ''  .detail__header { grid-template-columns: 1.1fr 1fr; align-items: cente''
     @ u ''r; }\<newline>''
     @ u ''  .container { grid-template-columns: repeat(auto-fit, minmax(320px, 1fr''
     @ u '')); }\<newline>''
     @ u ''}\<newline>''\<close>

section \<open>Rows with absent values in \<^verbatim>\<open>build.py\<close>\<close>

text \<open>
  A row decoded by \<^verbatim>\<open>build.load_rows\<close> can hold \<^verbatim>\<open>None\<close> (a cell with an empty \<^verbatim>\<open>v\<close> child
  that is no shared string). The local \<^verbatim>\<open>get\<close> of \<^verbatim>\<open>build.parse_store\<close> then returns
  \<^verbatim>\<open>None\<close> for that index.
\<close>

definition b_get_cell :: "ustr option list \<Rightarrow> nat \<Rightarrow> ustr option" where
  "b_get_cell row index = (if index < length row then row ! index else Some [])"

text \<open>
  The dictionary \<^verbatim>\<open>build.parse_store\<close> returns for such a row: the seven values it copies
  from the row unchanged may be \<^verbatim>\<open>None\<close>, the six it computes are strings.
\<close>

record b_dict =
  d_name :: ustr
  d_slug :: ustr
  d_map_url :: "ustr option"
  d_rating :: ustr
  d_review_count :: ustr
  d_category :: "ustr option"
  d_address :: "ustr option"
  d_status :: "ustr option"
  d_closing :: ustr
  d_phone :: "ustr option"
  d_image_url :: "ustr option"
  d_default_avatar :: "ustr option"
  d_snippet :: ustr

text \<open>
  \<^verbatim>\<open>build.parse_store\<close> on a decoded row. \<^verbatim>\<open>not name\<close> holds of \<^verbatim>\<open>None\<close> and of the empty
  string; \<^verbatim>\<open>float(None)\<close> is a \<^verbatim>\<open>TypeError\<close>, which \<^verbatim>\<open>to_float\<close> catches;
  \<^verbatim>\<open>get(9).lstrip(...)\<close> raises \<^verbatim>\<open>AttributeError\<close> on \<^verbatim>\<open>None\<close>; \<^verbatim>\<open>"".join(...)\<close> raises
  \<^verbatim>\<open>TypeError\<close> when one of the joined values is \<^verbatim>\<open>None\<close>. The statements run in this
  order: review count, closing time, snippet.
\<close>

definition b_parse_row :: "(ustr \<Rightarrow> ustr) \<Rightarrow> ustr option list \<Rightarrow> py_error + b_dict" where
  "b_parse_row lw row =
     (let nm = (case b_get_cell row 1 of
                  None \<Rightarrow> UNNAMED
                | Some nm0 \<Rightarrow> if nm0 = [] \<or> startswith nm0 (u ''http'') then UNNAMED else nm0);
          rt = (case b_get_cell row 2 of
                  None \<Rightarrow> u ''N/A''
                | Some v \<Rightarrow>
                    (case b_to_float v of None \<Rightarrow> u ''N/A'' | Some rating_value \<Rightarrow> format_1f rating_value));
          tail = map (b_get_cell row) [14..<length row]
      in case (case b_get_cell row 3 of None \<Rightarrow> Inr [] | Some v \<Rightarrow> b_review_count_of v) of
           Inl e \<Rightarrow> Inl e
         | Inr rc \<Rightarrow>
             (case b_get_cell row 9 of
                None \<Rightarrow> Inl AttributeError
              | Some cl \<Rightarrow>
                  if None \<in> set tail then Inl TypeError
                  else
                    Inr \<lparr>
                      d_name = nm,
                      d_slug = b_slugify lw nm,
                      d_map_url = b_get_cell row 0,
                      d_rating = rt,
                      d_review_count = rc,
                      d_category = b_get_cell row 4,
                      d_address = b_get_cell row 7,
                      d_status = b_get_cell row 8,
                      d_closing = lstrip_by (\<lambda>c. c = 183 \<or> c = 32) cl,
                      d_phone = b_get_cell row 11,
                      d_image_url = b_get_cell row 12,
                      d_default_avatar = b_get_cell row 13,
                      d_snippet =
                        strip (replace_all (u ''_x000D_'') (u '' '') (concat (map the tail))) \<rparr>))"

text \<open>
  The first three statements of \<^verbatim>\<open>build.main\<close>: the shared strings, the decoded rows, and
  one dictionary per row after the header.
\<close>

definition b_load_stores :: "(ustr \<Rightarrow> ustr) \<Rightarrow> xml \<Rightarrow> xml \<Rightarrow> py_error + b_dict list" where
  "b_load_stores lw shared_strings sheet =
     (case b_load_rows (b_load_strings shared_strings) sheet of
        Inl e \<Rightarrow> Inl e
      | Inr rows \<Rightarrow> map_result (b_parse_row lw) (drop 1 rows))"

text \<open>
  Rendering a dictionary. \<^verbatim>\<open>build_card\<close> and \<^verbatim>\<open>render_store\<close> pass the category, the
  address, the map link and \<^verbatim>\<open>image_url or default_avatar\<close> to \<^verbatim>\<open>html.escape\<close>, which raises
  \<^verbatim>\<open>AttributeError\<close> on \<^verbatim>\<open>None\<close>; the status and the phone number are only tested for
  truth (and the image link in \<^verbatim>\<open>or\<close>), where \<^verbatim>\<open>None\<close> counts as the empty string does.
  So a page is rendered as for the dictionary with \<^verbatim>\<open>""\<close> in place of \<^verbatim>\<open>None\<close>, unless one
  of the escaped values is \<^verbatim>\<open>None\<close>.
\<close>

definition or_empty :: "ustr option \<Rightarrow> ustr" where
  "or_empty v = (case v of None \<Rightarrow> [] | Some s \<Rightarrow> s)"

definition b_strings :: "b_dict \<Rightarrow> b_store" where
  "b_strings d =
     \<lparr> b_name = d_name d, b_slug = d_slug d, b_map_url = or_empty (d_map_url d),
       b_rating = d_rating d, b_review_count = d_review_count d,
       b_category = or_empty (d_category d), b_address = or_empty (d_address d),
       b_status = or_empty (d_status d), b_closing = d_closing d, b_phone = or_empty (d_phone d),
       b_image_url = or_empty (d_image_url d), b_default_avatar = or_empty (d_default_avatar d),
       b_snippet = d_snippet d \<rparr>"

definition b_escapes_none :: "b_dict \<Rightarrow> bool" where
  "b_escapes_none d \<longleftrightarrow>
     d_category d = None \<or> d_address d = None \<or> d_map_url d = None
     \<or> (or_empty (d_image_url d) = [] \<and> d_default_avatar d = None)"

definition b_build_card_dict :: "b_dict \<Rightarrow> py_error + ustr" where
  "b_build_card_dict d = (if b_escapes_none d then Inl AttributeError else Inr (b_build_card (b_strings d)))"

definition b_render_index_dicts :: "b_dict list \<Rightarrow> py_error + ustr" where
  "b_render_index_dicts stores =
     (case map_result b_build_card_dict stores of
        Inl e \<Rightarrow> Inl e
      | Inr cards \<Rightarrow> Inr (b_render_index (map b_strings stores)))"

definition b_render_store_dict :: "b_dict \<Rightarrow> py_error + ustr" where
  "b_render_store_dict d = (if b_escapes_none d then Inl AttributeError else Inr (b_render_store (b_strings d)))"

section \<open>Writing the site\<close>

text \<open>
  The directory tree below the working directory. A path is the list of its names, the
  working directory itself the empty list; a tree tells for every path whether a directory
  or a file with some text stands there. Names are compared code point by code point. Every
  text is written with the same encoding, so equal texts are equal bytes; a text holds the
  code points of parsed XML and of the templates only, which UTF-8 encodes. The process may
  create and write everywhere below its working directory.
\<close>

datatype node = Dir | File ustr

type_synonym path = "ustr list"

type_synonym filesystem = "path \<Rightarrow> node option"

text \<open>What an effect returns: the exception it raised, if any, and the tree it leaves.\<close>

type_synonym outcome = "py_error option \<times> filesystem"

text \<open>
  Walking down the directories \<open>cs\<close> from the directory \<open>here\<close>, as the operating system
  resolves a path: the first name that is absent or a file ends the walk.
\<close>

fun enter :: "filesystem \<Rightarrow> path \<Rightarrow> path \<Rightarrow> py_error option" where
  "enter t here [] = None"
| "enter t here (c # cs) =
     (case t (here @ [c]) of
        None \<Rightarrow> Some FileNotFoundError
      | Some (File x) \<Rightarrow> Some NotADirectoryError
      | Some Dir \<Rightarrow> enter t (here @ [c]) cs)"

text \<open>\<^verbatim>\<open>path.is_dir()\<close>.\<close>

definition is_dir :: "filesystem \<Rightarrow> path \<Rightarrow> bool" where
  "is_dir t p \<longleftrightarrow> enter t [] p = None"

text \<open>
  \<^verbatim>\<open>os.mkdir(path)\<close>. Whether the file system takes a new name (its length, for one) is the
  parameter \<open>name_ok\<close>.
\<close>

definition os_mkdir :: "(ustr \<Rightarrow> bool) \<Rightarrow> path \<Rightarrow> filesystem \<Rightarrow> outcome" where
  "os_mkdir name_ok p t =
     (if p = [] then (Some FileExistsError, t)
      else
        (case enter t [] (butlast p) of
           Some e \<Rightarrow> (Some e, t)
         | None \<Rightarrow>
             (case t p of
                Some n \<Rightarrow> (Some FileExistsError, t)
              | None \<Rightarrow> if name_ok (last p) then (None, t(p \<mapsto> Dir)) else (Some OSError, t))))"

text \<open>
  \<^verbatim>\<open>path.mkdir(exist_ok=True)\<close>: a \<^verbatim>\<open>FileNotFoundError\<close> is raised again; any other
  \<^verbatim>\<open>OSError\<close> is dropped when the path is a directory.
\<close>

definition mkdir :: "(ustr \<Rightarrow> bool) \<Rightarrow> path \<Rightarrow> filesystem \<Rightarrow> outcome" where
  "mkdir name_ok p t =
     (case os_mkdir name_ok p t of
        (None, t') \<Rightarrow> (None, t')
      | (Some e, t') \<Rightarrow>
          if e = FileNotFoundError then (Some e, t)
          else if is_dir t p then (None, t) else (Some e, t))"

text \<open>
  \<^verbatim>\<open>path.mkdir(parents=True, exist_ok=True)\<close>: on \<^verbatim>\<open>FileNotFoundError\<close> the parent is made
  in the same way, and then the path itself without \<^verbatim>\<open>parents\<close>.
\<close>

function mkdir_parents :: "(ustr \<Rightarrow> bool) \<Rightarrow> path \<Rightarrow> filesystem \<Rightarrow> outcome" where
  "mkdir_parents name_ok p t =
     (case os_mkdir name_ok p t of
        (None, t') \<Rightarrow> (None, t')
      | (Some e, t') \<Rightarrow>
          if e = FileNotFoundError then
            (if p = [] then (Some e, t)
             else
               (case mkdir_parents name_ok (butlast p) t of
                  (Some e', t'') \<Rightarrow> (Some e', t'')
                | (None, t'') \<Rightarrow> mkdir name_ok p t''))
          else if is_dir t p then (None, t) else (Some e, t))"
  by pat_completeness auto
termination
  by (relation "measure (\<lambda>(name_ok, p, t). length p)") auto

text \<open>
  \<^verbatim>\<open>path.write_text(content, encoding="utf-8")\<close>: the file is created or its text replaced;
  a directory at the path, or a parent that is none, raises.
\<close>

definition write_text :: "(ustr \<Rightarrow> bool) \<Rightarrow> path \<Rightarrow> ustr \<Rightarrow> filesystem \<Rightarrow> outcome" where
  "write_text name_ok p content t =
     (if p = [] then (Some IsADirectoryError, t)
      else
        (case enter t [] (butlast p) of
           Some e \<Rightarrow> (Some e, t)
         | None \<Rightarrow>
             (case t p of
                Some Dir \<Rightarrow> (Some IsADirectoryError, t)
              | Some (File x) \<Rightarrow> (None, t(p \<mapsto> File content))
              | None \<Rightarrow>
                  if name_ok (last p) then (None, t(p \<mapsto> File content)) else (Some OSError, t))))"

text \<open>
  The statements of a writer, run in their order; the first exception ends the run and
  leaves the tree as it then is. \<open>Raise\<close> is an exception of the text that was to be
  written next.
\<close>

datatype action = Mkdir path | MkdirParents path | WriteText path ustr | Raise py_error

fun perform :: "(ustr \<Rightarrow> bool) \<Rightarrow> action \<Rightarrow> filesystem \<Rightarrow> outcome" where
  "perform name_ok (Mkdir p) t = mkdir name_ok p t"
| "perform name_ok (MkdirParents p) t = mkdir_parents name_ok p t"
| "perform name_ok (WriteText p content) t = write_text name_ok p content t"
| "perform name_ok (Raise e) t = (Some e, t)"

fun perform_all :: "(ustr \<Rightarrow> bool) \<Rightarrow> action list \<Rightarrow> filesystem \<Rightarrow> outcome" where
  "perform_all name_ok [] t = (None, t)"
| "perform_all name_ok (a # as) t =
     (case perform name_ok a t of
        (None, t') \<Rightarrow> perform_all name_ok as t'
      | (Some e, t') \<Rightarrow> (Some e, t'))"

text \<open>
  \<^verbatim>\<open>generate_sites.write_site\<close>. The data dump is
  \<^verbatim>\<open>json.dumps([asdict(s) for s in stores], ensure_ascii=False, indent=2)\<close>, a library
  function of the record list: the parameter \<open>json_dumps\<close>. A slug is made of word
  characters and hyphens, so \<^verbatim>\<open>f"{store.slug}.html"\<close> is one name.
\<close>

definition gs_write_site ::
  "(ustr \<Rightarrow> bool) \<Rightarrow> (Store list \<Rightarrow> ustr) \<Rightarrow> Store list \<Rightarrow> path \<Rightarrow> filesystem \<Rightarrow> outcome" where
  "gs_write_site name_ok json_dumps stores output_dir t =
     (let assets_dir = output_dir @ [u ''assets''];
          stores_dir = output_dir @ [u ''stores'']
      in perform_all name_ok
           ([MkdirParents assets_dir,
             MkdirParents stores_dir,
             WriteText (assets_dir @ [u ''site.css'']) STYLE_CSS,
             WriteText (output_dir @ [u ''index.html'']) (gs_render_index stores)]
            @ map (\<lambda>store. WriteText (stores_dir @ [slug store @ u ''.html'']) (gs_render_detail store)) stores
            @ [WriteText (output_dir @ [u ''stores.json'']) (json_dumps stores)]) t)"

text \<open>
  \<^verbatim>\<open>generate_sites.main\<close>, from the two parsed XML parts of the workbook and the tree before
  the run. An exception of \<^verbatim>\<open>load_stores\<close> leaves the tree untouched.
\<close>

definition gs_main ::
  "(ustr \<Rightarrow> bool) \<Rightarrow> (ustr \<Rightarrow> ustr) \<Rightarrow> (nat \<Rightarrow> bool) \<Rightarrow> (Store list \<Rightarrow> ustr) \<Rightarrow> xml \<Rightarrow> xml \<Rightarrow> filesystem
     \<Rightarrow> outcome" where
  "gs_main name_ok lw isw json_dumps shared_root sheet_root t =
     (case gs_load_stores lw isw shared_root sheet_root of
        Inl e \<Rightarrow> (Some e, t)
      | Inr stores \<Rightarrow> gs_write_site name_ok json_dumps stores [u ''docs''] t)"

text \<open>The module constants of \<^verbatim>\<open>build.py\<close>.\<close>

definition DOCS_DIR :: path where "DOCS_DIR = [u ''docs'']"
definition ASSETS_DIR :: path where "ASSETS_DIR = DOCS_DIR @ [u ''assets'']"
definition STORES_DIR :: path where "STORES_DIR = DOCS_DIR @ [u ''stores'']"

text \<open>
  \<^verbatim>\<open>build.write_files\<close>. Each page is rendered just before it is written, so an exception
  of \<^verbatim>\<open>render_index\<close> comes after the three directories are made, and one of
  \<^verbatim>\<open>render_store\<close> after the directory of its store is.
\<close>

definition b_write_files :: "(ustr \<Rightarrow> bool) \<Rightarrow> b_dict list \<Rightarrow> filesystem \<Rightarrow> outcome" where
  "b_write_files name_ok stores t =
     perform_all name_ok
       ([Mkdir DOCS_DIR,
         MkdirParents ASSETS_DIR,
         MkdirParents STORES_DIR,
         (case b_render_index_dicts stores of
            Inl e \<Rightarrow> Raise e
          | Inr page \<Rightarrow> WriteText (DOCS_DIR @ [u ''index.html'']) page)]
        @ concat (map (\<lambda>store.
            [MkdirParents (STORES_DIR @ [d_slug store]),
             (case b_render_store_dict store of
                Inl e \<Rightarrow> Raise e
              | Inr page \<Rightarrow> WriteText (STORES_DIR @ [d_slug store, u ''index.html'']) page)]) stores)
        @ [WriteText (ASSETS_DIR @ [u ''style.css'']) STYLE]) t"

text \<open>
  \<^verbatim>\<open>build.main\<close>, from the two parsed XML parts of the workbook and the tree before the
  run.
\<close>

definition b_main :: "(ustr \<Rightarrow> bool) \<Rightarrow> (ustr \<Rightarrow> ustr) \<Rightarrow> xml \<Rightarrow> xml \<Rightarrow> filesystem \<Rightarrow> outcome" where
  "b_main name_ok lw shared_strings sheet t =
     (case b_load_stores lw shared_strings sheet of
        Inl e \<Rightarrow> (Some e, t)
      | Inr stores \<Rightarrow> b_write_files name_ok stores t)"

section \<open>The result of a run in closed form\<close>

text \<open>The directories on the way to a path and the path itself: its non-empty prefixes.\<close>

definition parts :: "path \<Rightarrow> path set" where
  "parts p = {q. q \<noteq> [] \<and> prefix q p}"

text \<open>A tree with directories at the paths of \<open>D\<close>.\<close>

definition with_dirs :: "path set \<Rightarrow> filesystem \<Rightarrow> filesystem" where
  "with_dirs D t = (\<lambda>q. if q \<in> D then Some Dir else t q)"

text \<open>
  A tree with the documents \<open>ws\<close> (pairs of a path and a text, in the order they are
  written): a path holds the text written to it last.
\<close>

definition written :: "(path \<times> ustr) list \<Rightarrow> filesystem \<Rightarrow> filesystem" where
  "written ws t = (\<lambda>p. case map_of (rev ws) p of None \<Rightarrow> t p | Some content \<Rightarrow> Some (File content))"

text \<open>The documents and the directories of \<^verbatim>\<open>generate_sites.py\<close>, for a record list.\<close>

definition gs_documents :: "(Store list \<Rightarrow> ustr) \<Rightarrow> Store list \<Rightarrow> (path \<times> ustr) list" where
  "gs_documents json_dumps stores =
     [([u ''docs'', u ''assets'', u ''site.css''], STYLE_CSS),
      ([u ''docs'', u ''index.html''], gs_render_index stores)]
     @ map (\<lambda>store. ([u ''docs'', u ''stores'', slug store @ u ''.html''], gs_render_detail store)) stores
     @ [([u ''docs'', u ''stores.json''], json_dumps stores)]"

definition gs_directories :: "path set" where
  "gs_directories = {[u ''docs''], [u ''docs'', u ''assets''], [u ''docs'', u ''stores'']}"

text \<open>The documents and the directories of \<^verbatim>\<open>build.py\<close>, for a list of dictionaries.\<close>

definition b_documents :: "b_dict list \<Rightarrow> (path \<times> ustr) list" where
  "b_documents stores =
     [([u ''docs'', u ''index.html''], b_render_index (map b_strings stores))]
     @ map (\<lambda>store. ([u ''docs'', u ''stores'', d_slug store, u ''index.html''],
                      b_render_store (b_strings store))) stores
     @ [([u ''docs'', u ''assets'', u ''style.css''], STYLE)]"

definition b_directories :: "b_dict list \<Rightarrow> path set" where
  "b_directories stores =
     {[u ''docs''], [u ''docs'', u ''assets''], [u ''docs'', u ''stores'']}
     \<union> (\<lambda>store. [u ''docs'', u ''stores'', d_slug store]) ` set stores"

text \<open>
  What a statement needs to run through on a tree that has been written before, and what
  it changes there; the kinds of a tree (directory or file) that a later run finds again.
\<close>

definition kinds_le :: "filesystem \<Rightarrow> filesystem \<Rightarrow> bool" where
  "kinds_le t s \<longleftrightarrow>
     (\<forall>p. (t p = Some Dir \<longrightarrow> s p = Some Dir) \<and> (\<forall>c. t p = Some (File c) \<longrightarrow> (\<exists>d. s p = Some (File d))))"

fun ready :: "action \<Rightarrow> filesystem \<Rightarrow> bool" where
  "ready (Mkdir p) s \<longleftrightarrow> is_dir s p"
| "ready (MkdirParents p) s \<longleftrightarrow> is_dir s p"
| "ready (WriteText p c) s \<longleftrightarrow> p \<noteq> [] \<and> is_dir s (butlast p) \<and> (\<exists>d. s p = Some (File d))"
| "ready (Raise e) s \<longleftrightarrow> False"

fun touch :: "action \<Rightarrow> filesystem \<Rightarrow> filesystem" where
  "touch (WriteText p c) s = s(p \<mapsto> File c)"
| "touch a s = s"

fun made1 :: "action \<Rightarrow> path set" where
  "made1 (Mkdir p) = parts p"
| "made1 (MkdirParents p) = parts p"
| "made1 a = {}"

definition made :: "action list \<Rightarrow> path set" where
  "made as = (\<Union>a\<in>set as. made1 a)"

fun writes :: "action list \<Rightarrow> (path \<times> ustr) list" where
  "writes [] = []"
| "writes (WriteText p c # as) = (p, c) # writes as"
| "writes (a # as) = writes as"

section \<open>The slug algorithm as the specification words it\<close>

text \<open>
  "Replace every run of characters outside an allowed set with a single separator": of
  each run of code points that satisfy \<open>P\<close>, \<open>squeeze\<close> keeps the last one only; mapping
  what is kept to the separator gives the replacement.
\<close>

fun squeeze :: "(nat \<Rightarrow> bool) \<Rightarrow> ustr \<Rightarrow> ustr" where
  "squeeze P [] = []"
| "squeeze P [c] = [c]"
| "squeeze P (c # d # cs) = (if P c \<and> P d then squeeze P (d # cs) else c # squeeze P (d # cs))"

text \<open>
  The steps of the specification in its order: lowercase, replace runs, collapse repeated
  separators, trim, truncate and trim the end again, fall back when nothing is left.
\<close>

definition slugify_spec :: "(ustr \<Rightarrow> ustr) \<Rightarrow> ustr \<Rightarrow> ustr" where
  "slugify_spec lw nm =
     (let lowered = lw nm;
          separated = map (\<lambda>c. if b_allowed c then c else 45) (squeeze (\<lambda>c. \<not> b_allowed c) lowered);
          collapsed = squeeze (\<lambda>c. c = 45) separated;
          trimmed = strip_by (\<lambda>c. c = 45) collapsed;
          cut = rstrip_by (\<lambda>c. c = 45) (take 60 trimmed)
      in if cut = [] then u ''store'' else cut)"

text \<open>
  A clean slug of \<^verbatim>\<open>build.py\<close>: not empty, at most 60 code points, only allowed characters
  and separators, no two separators in a row, none at either end.
\<close>

definition slug_char :: "nat \<Rightarrow> bool" where
  "slug_char c \<longleftrightarrow> b_allowed c \<or> c = 45"

definition valid_slug :: "ustr \<Rightarrow> bool" where
  "valid_slug s \<longleftrightarrow>
     s \<noteq> [] \<and> length s \<le> 60 \<and> list_all slug_char s \<and> \<not> sublist [45, 45] s
     \<and> hd s \<noteq> 45 \<and> last s \<noteq> 45"

text \<open>
  A clean slug of \<^verbatim>\<open>generate_sites.py\<close>, whose allowed characters are the word characters
  and which has no bound on the length.
\<close>

definition gs_clean :: "(nat \<Rightarrow> bool) \<Rightarrow> ustr \<Rightarrow> bool" where
  "gs_clean isw s \<longleftrightarrow>
     s \<noteq> [] \<and> list_all (\<lambda>c. isw c \<or> c = 45) s \<and> \<not> sublist [45, 45] s
     \<and> hd s \<noteq> 45 \<and> last s \<noteq> 45"

text \<open>
  The word characters among the ASCII code points, \<^verbatim>\<open>[a-zA-Z0-9_]\<close>: the instance of \<open>isw\<close>
  used where a concrete run is evaluated.
\<close>

definition ascii_word :: "nat \<Rightarrow> bool" where
  "ascii_word c \<longleftrightarrow> ascii_alnum c \<or> c = 95"

section \<open>Bijective base 26\<close>

text \<open>
  The value of a digit string in bijective base 26 (digits 1 to 26, most significant
  first), and the digit a capital letter stands for.
\<close>

fun bij26 :: "nat list \<Rightarrow> nat" where
  "bij26 [] = 0"
| "bij26 (d # ds) = d * 26 ^ length ds + bij26 ds"

definition letter_digit :: "nat \<Rightarrow> nat" where
  "letter_digit c = c - 65 + 1"

text \<open>The digit strings of that numeral system: every digit between 1 and 26.\<close>

definition digits26 :: "nat list \<Rightarrow> bool" where
  "digits26 ds \<longleftrightarrow> list_all (\<lambda>d. 1 \<le> d \<and> d \<le> 26) ds"

section \<open>Column alignment as the specification words it\<close>

text \<open>
  A present cell is one that carries a value node. \<open>value_at shared cells i\<close> is what the
  specification wants at position \<open>i\<close> of the decoded row: the value of the present cell
  whose reference names column \<open>i + 1\<close>, the empty string when there is none.
\<close>

definition cell_has_value :: "xml \<Rightarrow> bool" where
  "cell_has_value cell \<longleftrightarrow> find_child V cell \<noteq> None"

definition value_at :: "ustr list \<Rightarrow> xml list \<Rightarrow> nat \<Rightarrow> py_error + ustr" where
  "value_at shared cells i =
     (case find (\<lambda>c. cell_column c = i + 1) cells of
        None \<Rightarrow> Inr []
      | Some c \<Rightarrow> (case find_child V c of None \<Rightarrow> Inr [] | Some v \<Rightarrow> gs_cell_value shared c v))"

section \<open>Example inputs\<close>

text \<open>The concrete inputs on which the properties below are evaluated.\<close>

text \<open>
  A shared-string part with a rich-text entry of two runs followed by a plain entry:
  \<^verbatim>\<open><sst><si><r><t>Hello </t></r><r><t>World</t></r></si><si><t>Taipei</t></si></sst>\<close>.
\<close>

definition sst_rich :: xml where
  "sst_rich =
     Elem (NS @ u ''sst'') [] None
       [Elem SI [] None
          [Elem (NS @ u ''r'') [] None [Elem T [] (Some (u ''Hello '')) []],
           Elem (NS @ u ''r'') [] None [Elem T [] (Some (u ''World'')) []]],
        Elem SI [] None [Elem T [] (Some (u ''Taipei'')) []]]"

text \<open>A cell of type \<^verbatim>\<open>s\<close> that refers to shared string 1: \<^verbatim>\<open><c r="B2" t="s"><v>1</v></c>\<close>.\<close>

definition cell_ref_1 :: xml where
  "cell_ref_1 = Elem C [(u ''r'', u ''B2''), (u ''t'', u ''s'')] None [Elem V [] (Some (u ''1'')) []]"

text \<open>
  A row whose first cell is styled but empty (it has no \<^verbatim>\<open>v\<close> child) and whose only value
  stands in column C:
  \<^verbatim>\<open><row r="2"><c r="A2" s="3"/><c r="C2"><v>x</v></c></row>\<close>.
\<close>

definition cell_A2_blank :: xml where
  "cell_A2_blank = Elem C [(u ''r'', u ''A2''), (u ''s'', u ''3'')] None []"

definition cell_C2_x :: xml where
  "cell_C2_x = Elem C [(u ''r'', u ''C2'')] None [Elem V [] (Some (u ''x'')) []]"

definition row_blank_then_value :: xml where
  "row_blank_then_value = Elem ROW [(u ''r'', u ''2'')] None [cell_A2_blank, cell_C2_x]"

text \<open>The text of every page of \<^verbatim>\<open>generate_sites.py\<close> up to the content of its title.\<close>

definition PAGE_HEAD :: ustr where
  "PAGE_HEAD =
     u ''<!doctype html>\<newline>''
     @ u ''<html lang='zh-Hant'>\<newline>''
     @ u ''<head>\<newline>''
     @ u ''  <meta charset='utf-8'>\<newline>''
     @ u ''  <meta name='viewport' content='width=device-width, initial-scale=1'>\<newline>''
     @ u ''  <title>''"

text \<open>A store whose name is markup; every other field is empty or absent.\<close>

definition store_markup_name :: Store where
  "store_markup_name =
     \<lparr> map_url = [], name = u ''<script>alert(1)</script>'', rating = None, review_count = None,
       category = [], address = [], status = [], closing_time = [], phone = [],
       hero_image = DEFAULT_HERO, avatar_image = DEFAULT_AVATAR, review_snippet = [],
       slug = u ''script-alert-1-script'' \<rparr>"

text \<open>The decoded row that store comes from: the name stands at index 5.\<close>

definition row_markup_name :: "ustr list" where
  "row_markup_name = [[], [], [], [], [], u ''<script>alert(1)</script>'']"

text \<open>
  The example of the specification, \<^verbatim>\<open>ABC\<close>, two CJK code points (U+6C34, U+96FB) and
  \<^verbatim>\<open>Co.!!\<close> with spaces between them, and the slug it gets.
\<close>

definition name_example :: ustr where
  "name_example = u ''ABC '' @ [27700, 38651] @ u '' Co.!!''"

definition slug_example :: ustr where
  "slug_example = u ''abc-'' @ [27700, 38651] @ u ''-co''"

text \<open>
  Decoded rows in the column layout of \<^verbatim>\<open>build.py\<close> (map link, name, ...): a header and one
  data row whose name is empty.
\<close>

definition rows_empty_name :: "ustr list list" where
  "rows_empty_name = [[u ''map'', u ''name''], [u ''https://maps.example/1'', []]]"

text \<open>
  Decoded rows in the column layout of \<^verbatim>\<open>generate_sites.py\<close> (map link at index 4, name at
  5, rating at 6, review count at 7, address at 11): the listing of the specification's
  end-to-end example with the record it maps to, a row whose name is blank, and a sheet of
  a header and these two rows.
\<close>

definition row_test_shop :: "ustr list" where
  "row_test_shop =
     [[], [], [], [], u ''https://maps.example/1'', u '' Test Shop '', u ''4.5'', u ''-3'', [], [], [],
      u ''123 Test Rd'']"

definition store_test_shop :: Store where
  "store_test_shop =
     \<lparr> map_url = u ''https://maps.example/1'', name = u ''Test Shop'',
       rating = Some (Finite False (9 / 2)), review_count = Some 3,
       category = [], address = u ''123 Test Rd'', status = [], closing_time = [], phone = [],
       hero_image = DEFAULT_HERO, avatar_image = DEFAULT_AVATAR, review_snippet = [],
       slug = u ''test-shop'' \<rparr>"

definition row_blank_name :: "ustr list" where
  "row_blank_name = [[], [], [], [], u ''https://maps.example/0'', u ''  '', u ''4.5'']"

definition rows_example :: "ustr list list" where
  "rows_example = [[u ''header''], row_blank_name, row_test_shop]"

text \<open>A row of three columns only.\<close>

definition row_short :: "ustr list" where
  "row_short = [u ''https://maps.example/2'', u ''Corner Shop'', u ''4.0'']"

text \<open>An empty workbook: no shared strings, no rows.\<close>

definition sst_empty :: xml where
  "sst_empty = Elem (NS @ u ''sst'') [] None []"

definition sheet_empty :: xml where
  "sheet_empty = Elem (NS @ u ''worksheet'') [] None [Elem SHEETDATA [] None []]"

section \<open>Properties\<close>

subsection \<open>Evaluation on concrete inputs\<close>

text \<open>
  The recursive equations of the loops are unfolded on demand only; the definitions below
  are what the simplifier needs to run the model on a concrete input.
\<close>

declare pad_to.simps [simp del]
declare str_nat.simps [simp del]
declare replace_all.simps [simp del]

lemmas tag_defs = SI_def T_def ROW_def C_def V_def SHEETDATA_def
lemmas xml_defs = iter_tag_def findall_child_def findall_desc_def find_child_def get_attr_def
  text_or_empty_def
lemmas str_defs = strip_def number_strip_def is_number_space_def strip_by_def lstrip_by_def
  rstrip_by_def is_space_def
lemmas int_defs = py_int_def digits_value_def is_digit_def py_index_def shared_lookup_def
  to_ascii_digit_def
lemmas float_defs = py_float_def Let_def parse_floatnumber_def split_first_def parse_number_def
  to_ascii_digit_def
  ascii_lower_char_def is_digit_def parse_exponent_def decimal_value_def digits_value_def pow10_def

lemma replicate_2: "replicate 2 x = [x, x]"
  by (simp add: numeral_2_eq_2)

lemma pad_to_eq:
  "pad_to idx row_vals current_col
     = (row_vals @ replicate (idx - current_col) [], max current_col idx)"
proof (induction idx row_vals current_col rule: pad_to.induct)
  case (1 idx row_vals current_col)
  show ?case
  proof (cases "current_col < idx")
    case True
    then have "idx - current_col = Suc (idx - (current_col + 1))" by simp
    with True "1" show ?thesis
      by (simp add: pad_to.simps[of idx row_vals current_col] max_def)
  next
    case False
    then show ?thesis by (simp add: pad_to.simps[of idx row_vals current_col] max_def)
  qed
qed

subsection \<open>The shared-string table\<close>

lemma b_load_strings_rich: "b_load_strings sst_rich = [u ''Hello '', u ''World'', u ''Taipei'']"
  by (simp add: sst_rich_def b_load_strings_def xml_defs tag_defs u_def)

lemma gs_load_shared_strings_rich: "gs_load_shared_strings sst_rich = [u ''Hello World'', u ''Taipei'']"
  by (simp add: sst_rich_def gs_load_shared_strings_def xml_defs tag_defs u_def)

lemma bs_load_shared_strings_rich: "bs_load_shared_strings sst_rich = [u ''Hello World'', u ''Taipei'']"
  by (simp add: sst_rich_def bs_load_shared_strings_def xml_defs tag_defs u_def)

text \<open>
  For \<^verbatim>\<open>generate_sites.py\<close> and \<^verbatim>\<open>build_sites.py\<close> the table has one string per entry, the
  texts of the entry's runs joined in document order.
\<close>

lemma gs_load_shared_strings_nth:
  assumes "i < length (findall_child SI ss_root)"
  shows "py_index (gs_load_shared_strings ss_root) (int i)
           = Inr (concat (map text_or_empty (iter_tag T (findall_child SI ss_root ! i))))"
  using assms by (simp add: py_index_def gs_load_shared_strings_def)

lemma bs_load_shared_strings_nth:
  assumes "i < length (findall_desc SI ss_root)"
  shows "py_index (bs_load_shared_strings ss_root) (int i)
           = Inr (concat (map text_or_empty (findall_desc T (findall_desc SI ss_root ! i))))"
  using assms by (simp add: py_index_def bs_load_shared_strings_def)

text \<open>
  C2. In \<^verbatim>\<open>build.py\<close> the table holds one string per text run, not one per entry: on the
  part above it has three strings for two entries, so reference 1, which names the entry
  \<^verbatim>\<open>Taipei\<close>, resolves to the second run of entry 0, and no reference resolves to
  \<^verbatim>\<open>Hello World\<close>. The two other loaders resolve the same reference to \<^verbatim>\<open>Taipei\<close>.
\<close>

theorem b_load_strings_splits_rich_text:
  "b_load_strings sst_rich = [u ''Hello '', u ''World'', u ''Taipei'']
   \<and> b_decode_cell (b_load_strings sst_rich) cell_ref_1 = Inr (Some (u ''World''))
   \<and> gs_cell_value (gs_load_shared_strings sst_rich) cell_ref_1 (Elem V [] (Some (u ''1'')) [])
         = Inr (u ''Taipei'')
   \<and> bs_decode_cell (bs_load_shared_strings sst_rich) cell_ref_1 = Inr (Some (u ''Taipei''))"
proof -
  have "b_decode_cell [u ''Hello '', u ''World'', u ''Taipei''] cell_ref_1 = Inr (Some (u ''World''))"
    by (simp add: b_decode_cell_def cell_ref_1_def xml_defs tag_defs int_defs str_defs u_def)
  moreover have "gs_cell_value [u ''Hello World'', u ''Taipei''] cell_ref_1 (Elem V [] (Some (u ''1'')) [])
      = Inr (u ''Taipei'')"
    by (simp add: gs_cell_value_def cell_ref_1_def xml_defs tag_defs int_defs str_defs u_def)
  moreover have "bs_decode_cell [u ''Hello World'', u ''Taipei''] cell_ref_1 = Inr (Some (u ''Taipei''))"
    by (simp add: bs_decode_cell_def cell_ref_1_def xml_defs tag_defs int_defs str_defs u_def)
  ultimately show ?thesis
    by (simp only: b_load_strings_rich gs_load_shared_strings_rich bs_load_shared_strings_rich simp_thms)
qed

subsection \<open>Column references\<close>

lemma foldl_bij26:
  "foldl (\<lambda>index char. index * 26 + (char - 65 + 1)) a ls
     = a * 26 ^ length ls + bij26 (map letter_digit ls)"
  by (induction ls arbitrary: a) (simp_all add: letter_digit_def algebra_simps)

lemma column_index_pos: "1 \<le> column_index r"
proof (cases "takeWhile is_AZ r")
  case Nil
  then show ?thesis by (simp add: column_index_def)
next
  case (Cons c cs)
  have "column_index r = letter_digit c * 26 ^ length cs + bij26 (map letter_digit cs)"
    using foldl_bij26 [of 0 "c # cs"] by (simp add: column_index_def Cons)
  moreover have "0 < letter_digit c * 26 ^ length cs" by (simp add: letter_digit_def)
  ultimately show ?thesis by linarith
qed

text \<open>
  Bijective base 26 is a bijection between the non-empty digit strings and the positive
  numbers, so \<open>column_index\<close> is one between the non-empty strings of capitals and the
  columns.
\<close>

lemma bij26_bounds:
  "digits26 ds \<Longrightarrow> 26 ^ length ds \<le> 25 * bij26 ds + 1 \<and> 25 * bij26 ds + 26 \<le> 26 ^ (length ds + 1)"
proof (induction ds)
  case Nil
  then show ?case by simp
next
  case (Cons d ds)
  define x :: nat where "x = 26 ^ length ds"
  have d: "1 \<le> d" "d \<le> 26" and ds: "digits26 ds" using Cons.prems by (simp_all add: digits26_def)
  have lo: "x \<le> 25 * bij26 ds + 1" and hi: "25 * bij26 ds + 26 \<le> 26 * x"
    using Cons.IH[OF ds] by (simp_all add: x_def)
  define y where "y = d * x"
  have m1: "x \<le> y" using d(1) by (simp add: y_def)
  have m2: "y \<le> 26 * x" using d(2) by (simp add: y_def)
  have "26 * x \<le> 25 * (y + bij26 ds) + 1" using lo m1 by (simp add: algebra_simps)
  moreover have "25 * (y + bij26 ds) + 26 \<le> 26 * (26 * x)" using hi m2 by (simp add: algebra_simps)
  ultimately show ?case by (simp add: x_def y_def)
qed

lemma bij26_length:
  assumes "digits26 xs" "digits26 ys" "bij26 xs = bij26 ys"
  shows "length xs = length ys"
proof -
  have le: "length a \<le> length b" if "digits26 a" "digits26 b" "bij26 a = bij26 b" for a b
  proof -
    have "(26::nat) ^ length a < 26 ^ (length b + 1)"
      using bij26_bounds[OF that(1)] bij26_bounds[OF that(2)] that(3) by linarith
    then have "length a < length b + 1" by (rule power_less_imp_less_exp[rotated]) simp
    then show ?thesis by simp
  qed
  from le[OF assms] le[OF assms(2) assms(1) assms(3)[symmetric]] show ?thesis by simp
qed

lemma bij26_inj:
  "digits26 xs \<Longrightarrow> digits26 ys \<Longrightarrow> bij26 xs = bij26 ys \<Longrightarrow> xs = ys"
proof (induction xs arbitrary: ys)
  case Nil
  then show ?case using bij26_length[of "[]" ys] by simp
next
  case (Cons d xs)
  from bij26_length[OF Cons.prems] obtain e ys' where ys: "ys = e # ys'" and len: "length ys' = length xs"
    by (cases ys) auto
  define x :: nat where "x = 26 ^ length xs"
  have dx: "digits26 xs" and dy: "digits26 ys'" using Cons.prems ys by (simp_all add: digits26_def)
  define dx where "dx = d * x"
  define ex where "ex = e * x"
  have eq: "dx + bij26 xs = ex + bij26 ys'"
    using Cons.prems(3) ys len by (simp add: x_def dx_def ex_def)
  have bx: "x \<le> 25 * bij26 xs + 1" "25 * bij26 xs + 26 \<le> 26 * x"
    using bij26_bounds[OF dx] by (simp_all add: x_def)
  have "x \<le> 25 * bij26 ys' + 1" "25 * bij26 ys' + 26 \<le> 26 * x"
    using bij26_bounds[OF dy] len by (simp_all add: x_def)
  note b2 = this
  have "d = e"
  proof (rule ccontr)
    assume ne: "d \<noteq> e"
    then consider "d < e" | "e < d" by linarith
    then show False
    proof cases
      case 1
      then have "(d + 1) * x \<le> e * x" by (intro mult_le_mono1) simp
      then have "dx + x \<le> ex" by (simp add: dx_def ex_def)
      then show False using eq bx b2 by linarith
    next
      case 2
      then have "(e + 1) * x \<le> d * x" by (intro mult_le_mono1) simp
      then have "ex + x \<le> dx" by (simp add: dx_def ex_def)
      then show False using eq bx b2 by linarith
    qed
  qed
  then have "bij26 xs = bij26 ys'" using eq by (simp add: dx_def ex_def)
  then have "xs = ys'" using Cons.IH[OF dx dy] by simp
  then show ?case using \<open>d = e\<close> ys by simp
qed

lemma bij26_snoc: "bij26 (ds @ [d]) = 26 * bij26 ds + d"
  by (induction ds) (simp_all add: algebra_simps)

lemma bij26_surj: "1 \<le> n \<Longrightarrow> \<exists>ds. digits26 ds \<and> ds \<noteq> [] \<and> bij26 ds = n"
proof (induction n rule: less_induct)
  case (less n)
  define q where "q = (n - 1) div 26"
  define r where "r = (n - 1) mod 26 + 1"
  have n: "n = 26 * q + r" using less.prems by (simp add: q_def r_def)
  have r: "1 \<le> r" "r \<le> 26" by (simp_all add: r_def)
  show ?case
  proof (cases "q = 0")
    case True
    then have "bij26 [r] = n" using n by simp
    then show ?thesis using r by (intro exI[of _ "[r]"]) (simp add: digits26_def)
  next
    case False
    then have "q < n" "1 \<le> q" using n r by simp_all
    from less.IH[OF this] obtain ds where ds: "digits26 ds" "bij26 ds = q" by blast
    have "bij26 (ds @ [r]) = n" using ds n by (simp add: bij26_snoc)
    then show ?thesis using ds r by (intro exI[of _ "ds @ [r]"]) (simp add: digits26_def)
  qed
qed

lemma letter_digits26: "digits26 (map letter_digit (takeWhile is_AZ r))"
proof -
  have "\<forall>c\<in>set (takeWhile is_AZ r). is_AZ c" by (auto dest: set_takeWhileD)
  then show ?thesis by (auto simp: digits26_def list_all_iff letter_digit_def is_AZ_def)
qed

lemma letter_digit_inj: "is_AZ a \<Longrightarrow> is_AZ b \<Longrightarrow> letter_digit a = letter_digit b \<Longrightarrow> a = b"
  unfolding letter_digit_def is_AZ_def by linarith

lemma map_letter_digit_inj:
  "list_all is_AZ xs \<Longrightarrow> list_all is_AZ ys \<Longrightarrow> map letter_digit xs = map letter_digit ys \<Longrightarrow> xs = ys"
proof (induction xs arbitrary: ys)
  case Nil then show ?case by simp
next
  case (Cons a xs)
  then obtain b ys' where "ys = b # ys'" by (cases ys) auto
  with Cons show ?case by (auto dest: letter_digit_inj)
qed

lemma column_index_inj:
  assumes "takeWhile is_AZ r \<noteq> []" "takeWhile is_AZ r' \<noteq> []" "column_index r = column_index r'"
  shows "takeWhile is_AZ r = takeWhile is_AZ r'"
proof -
  have "bij26 (map letter_digit (takeWhile is_AZ r)) = bij26 (map letter_digit (takeWhile is_AZ r'))"
    using assms foldl_bij26[of 0 "takeWhile is_AZ r"] foldl_bij26[of 0 "takeWhile is_AZ r'"]
    by (simp add: column_index_def)
  then have "map letter_digit (takeWhile is_AZ r) = map letter_digit (takeWhile is_AZ r')"
    using bij26_inj letter_digits26 by blast
  moreover have "list_all is_AZ (takeWhile is_AZ r)" "list_all is_AZ (takeWhile is_AZ r')"
    by (auto simp: list_all_iff dest: set_takeWhileD)
  ultimately show ?thesis by (rule map_letter_digit_inj[rotated 2])
qed


lemma column_index_surj:
  assumes "1 \<le> n"
  shows "\<exists>r. r \<noteq> [] \<and> list_all is_AZ r \<and> column_index r = n"
proof -
  from bij26_surj[OF assms] obtain ds where ds: "digits26 ds" "ds \<noteq> []" "bij26 ds = n" by blast
  define r where "r = map (\<lambda>d. d + 64) ds"
  have az: "list_all is_AZ r" using ds(1) by (auto simp: r_def digits26_def list_all_iff is_AZ_def)
  then have tw: "takeWhile is_AZ r = r" by (simp add: list_all_iff)
  have ne: "r \<noteq> []" using ds(2) by (simp add: r_def)
  have md: "map letter_digit r = ds"
    using ds(1) by (auto simp: r_def digits26_def list_all_iff letter_digit_def intro!: map_idI)
  have "column_index r = foldl (\<lambda>index char. index * 26 + (char - 65 + 1)) 0 r"
    unfolding column_index_def Let_def tw using ne by simp
  also have "\<dots> = bij26 (map letter_digit r)"
    using foldl_bij26[of 0 r] by simp
  finally have "column_index r = n" using md ds(3) by simp
  then show ?thesis using az ne by blast
qed

text \<open>
  C10. \<open>column_index\<close> reads the leading run of capital letters of a cell reference as a
  bijective base-26 numeral, giving the 1-based column: two references have the same
  column only when they have the same letters, and every column from 1 on is that of some
  string of letters. A reference that does not start with a capital letter, the empty one
  included, gives 1, the column of \<^verbatim>\<open>A\<close>.
\<close>

theorem column_index_bijective_base26:
  "(takeWhile is_AZ r \<noteq> [] \<longrightarrow>
      column_index r = bij26 (map letter_digit (takeWhile is_AZ r)) \<and> 1 \<le> column_index r)
   \<and> (takeWhile is_AZ r = [] \<longrightarrow> column_index r = 1)
   \<and> (takeWhile is_AZ r \<noteq> [] \<and> takeWhile is_AZ r' \<noteq> [] \<and> column_index r = column_index r' \<longrightarrow>
        takeWhile is_AZ r = takeWhile is_AZ r')
   \<and> (1 \<le> n \<longrightarrow> (\<exists>s. s \<noteq> [] \<and> list_all is_AZ s \<and> column_index s = n))
   \<and> column_index (u ''A1'') = 1
   \<and> column_index (u ''Z1'') = 26
   \<and> column_index (u ''AA3'') = 27
   \<and> column_index [] = 1"
proof -
  have formula: "column_index r = bij26 (map letter_digit (takeWhile is_AZ r))"
    if "takeWhile is_AZ r \<noteq> []"
    using that foldl_bij26 [of 0 "takeWhile is_AZ r"] by (simp add: column_index_def Let_def)
  have dflt: "column_index r = 1" if "takeWhile is_AZ r = []"
    using that by (simp add: column_index_def)
  have ex: "column_index (u ''A1'') = 1" "column_index (u ''Z1'') = 26"
    "column_index (u ''AA3'') = 27" "column_index [] = 1"
    by (simp_all add: column_index_def u_def is_AZ_def)
  from formula dflt ex column_index_pos [of r] column_index_inj [of r r'] column_index_surj [of n]
  show ?thesis by blast
qed

theorem column_index_bijective_base26_witness:
  "takeWhile is_AZ (u ''AB12'') \<noteq> [] \<and> column_index (u ''AB12'') = 28
   \<and> takeWhile is_AZ (u ''7'') = [] \<and> column_index (u ''7'') = 1
   \<and> takeWhile is_AZ (u ''AB7'') \<noteq> [] \<and> column_index (u ''AB12'') = column_index (u ''AB7'')
   \<and> takeWhile is_AZ (u ''AB12'') = takeWhile is_AZ (u ''AB7'')
   \<and> (\<exists>s. s \<noteq> [] \<and> list_all is_AZ s \<and> column_index s = 28)"
proof -
  have a: "takeWhile is_AZ (u ''AB12'') = [65, 66]" "takeWhile is_AZ (u ''AB7'') = [65, 66]"
    "takeWhile is_AZ (u ''7'') = []"
    by (simp_all add: u_def is_AZ_def)
  have b: "column_index (u ''AB7'') = 28"
    by (simp add: column_index_def u_def is_AZ_def)
  show ?thesis
    using column_index_bijective_base26 [of "u ''AB12''" "u ''AB7''" 28]
      column_index_bijective_base26 [of "u ''7''" "u ''7''" 28] a b
    by (simp add: letter_digit_def)
qed

subsection \<open>The row decoder\<close>

text \<open>
  What \<^verbatim>\<open>generate_sites.load_sheet_rows\<close> does get right: when every cell of a row carries
  a value node and the cells stand in increasing column order, the decoded row is as long
  as the last column referenced and holds at every position the value of the cell of that
  column, or the empty string.
\<close>

lemma gs_row_loop_aligned:
  assumes "list_all cell_has_value cells"
    and "sorted_wrt (<) (map cell_column cells)"
    and "\<forall>c\<in>set cells. current_col \<le> cell_column c"
    and "length row_vals + 1 = current_col"
    and "gs_row_loop shared cells row_vals current_col = Inr vals"
  shows "take (length row_vals) vals = row_vals
       \<and> length vals = (if cells = [] then length row_vals else cell_column (last cells))
       \<and> (\<forall>i. length row_vals \<le> i \<and> i < length vals \<longrightarrow> value_at shared cells i = Inr (vals ! i))"
  using assms
proof (induction cells arbitrary: row_vals current_col)
  case Nil
  then show ?case by auto
next
  case (Cons cell cells)
  from Cons.prems(1) obtain v where v: "find_child V cell = Some v"
    by (auto simp: cell_has_value_def)
  define idx where "idx = cell_column cell"
  have ge: "current_col \<le> idx" using Cons.prems(3) by (simp add: idx_def)
  from Cons.prems(5) v obtain val where val: "gs_cell_value shared cell v = Inr val"
    by (auto split: sum.splits)
  define rv where "rv = row_vals @ replicate (idx - current_col) [] @ [val]"
  have loop: "gs_row_loop shared cells rv (idx + 1) = Inr vals"
    using Cons.prems(5) v val ge by (simp add: pad_to_eq idx_def[symmetric] rv_def max_def)
  have len_rv: "length rv = idx" using Cons.prems(4) ge by (simp add: rv_def)
  have p1: "list_all cell_has_value cells" using Cons.prems(1) by simp
  have p2: "sorted_wrt (<) (map cell_column cells)" using Cons.prems(2) by simp
  have gt: "\<forall>c\<in>set cells. idx < cell_column c" using Cons.prems(2) by (simp add: idx_def)
  then have p3: "\<forall>c\<in>set cells. idx + 1 \<le> cell_column c" by auto
  have p4: "length rv + 1 = idx + 1" using len_rv by simp
  note ih = Cons.IH[OF p1 p2 p3 p4 loop]
  from ih have tk: "take idx vals = rv" by (simp add: len_rv)
  from ih have ln: "length vals = (if cells = [] then idx else cell_column (last cells))"
    by (simp add: len_rv)
  from ih have at: "\<forall>i. idx \<le> i \<and> i < length vals \<longrightarrow> value_at shared cells i = Inr (vals ! i)"
    by (simp add: len_rv)
  have le_len: "idx \<le> length vals"
    using tk len_rv by (metis length_take min.cobounded1)
  have nth_rv: "vals ! i = rv ! i" if "i < idx" for i
    using tk that by (metis nth_take)
  have c1: "take (length row_vals) vals = row_vals"
  proof -
    have "take (length row_vals) vals = take (length row_vals) (take idx vals)"
      using Cons.prems(4) ge by (simp add: min_def)
    then show ?thesis by (simp add: tk rv_def)
  qed
  have c2: "length vals = cell_column (last (cell # cells))"
    using ln by (simp add: idx_def)
  have c3: "value_at shared (cell # cells) i = Inr (vals ! i)"
    if i: "length row_vals \<le> i \<and> i < length vals" for i
  proof -
    consider "i + 1 < idx" | "i + 1 = idx" | "idx \<le> i" by linarith
    then show ?thesis
    proof cases
      case 1
      then have "vals ! i = rv ! i" using nth_rv by simp
      also have "\<dots> = []"
      proof -
        have "i - length row_vals < idx - current_col" using 1 i Cons.prems(4) by linarith
        then show ?thesis using i by (simp add: rv_def nth_append)
      qed
      finally have e: "vals ! i = []" .
      have "find (\<lambda>c. cell_column c = i + 1) (cell # cells) = None"
        using 1 gt by (auto simp: find_None_iff idx_def)
      then show ?thesis using e by (simp add: value_at_def)
    next
      case 2
      then have "vals ! i = rv ! i" using nth_rv by simp
      also have "\<dots> = val"
      proof -
        have "i - length row_vals = idx - current_col" using 2 i Cons.prems(4) by linarith
        then show ?thesis using i by (simp add: rv_def nth_append)
      qed
      finally have e: "vals ! i = val" .
      show ?thesis using 2 e v val by (simp add: value_at_def idx_def)
    next
      case 3
      then have "cell_column cell \<noteq> i + 1" by (simp add: idx_def)
      then have "value_at shared (cell # cells) i = value_at shared cells i"
        by (simp add: value_at_def)
      then show ?thesis using at 3 i by simp
    qed
  qed
  from c1 c2 c3 show ?case by simp
qed

lemma gs_decode_row_aligned:
  assumes "list_all cell_has_value (findall_child C row)"
    and "sorted_wrt (<) (map cell_column (findall_child C row))"
    and "gs_decode_row shared row = Inr vals"
  shows "length vals = (if findall_child C row = [] then 0 else cell_column (last (findall_child C row)))
       \<and> (\<forall>c\<in>set (findall_child C row). cell_column c \<le> length vals)
       \<and> (\<forall>i<length vals. value_at shared (findall_child C row) i = Inr (vals ! i))"
proof -
  let ?cells = "findall_child C row"
  have pos: "\<forall>c\<in>set ?cells. 1 \<le> cell_column c"
    using column_index_pos by (simp add: cell_column_def)
  have loop: "gs_row_loop shared ?cells [] 1 = Inr vals"
    using assms(3) by (simp add: gs_decode_row_def)
  from gs_row_loop_aligned[OF assms(1) assms(2) pos _ loop]
  have ln: "length vals = (if ?cells = [] then 0 else cell_column (last ?cells))"
    and at: "\<forall>i<length vals. value_at shared ?cells i = Inr (vals ! i)" by simp_all
  have "cell_column c \<le> length vals" if c: "c \<in> set ?cells" for c
  proof -
    have ne: "?cells \<noteq> []" using c by auto
    have "cell_column c \<le> cell_column (last ?cells)"
    proof (cases "c = last ?cells")
      case True then show ?thesis by simp
    next
      case False
      then have "c \<in> set (butlast ?cells)" using c ne
        by (metis append_butlast_last_id in_set_conv_decomp rotate1.simps(2) set_ConsD set_rotate1)
      moreover have "sorted_wrt (<) (map cell_column (butlast ?cells @ [last ?cells]))"
        using assms(2) ne by simp
      ultimately show ?thesis by (auto simp: sorted_wrt_append)
    qed
    then show ?thesis using ln ne by simp
  qed
  with ln at show ?thesis by blast
qed

text \<open>
  C1. On that row \<^verbatim>\<open>generate_sites.load_sheet_rows\<close> appends an empty string for the blank
  cell without advancing its column counter, and then pads up to column C as if nothing
  had been appended: the value of column C (index 3, position 2) comes out at position 3,
  and position 2 holds the empty string.
\<close>

theorem gs_decode_row_blank_cell_misaligns:
  "gs_decode_row [] row_blank_then_value = Inr [[], [], [], u ''x'']
   \<and> cell_column cell_C2_x = 3"
  by (simp add: row_blank_then_value_def cell_A2_blank_def cell_C2_x_def gs_decode_row_def xml_defs
        gs_cell_value_def cell_column_def column_index_def is_AZ_def pad_to_eq tag_defs u_def
        replicate_2)

text \<open>
  The decoders of \<^verbatim>\<open>build.py\<close> and \<^verbatim>\<open>build_sites.py\<close> never read the cell reference: a row
  whose only cell stands in column C decodes to a list of length one.
\<close>

lemma b_bs_decode_sparse_row:
  "map_result (b_decode_cell []) (iter_tag C (Elem ROW [] None [cell_C2_x])) = Inr [Some (u ''x'')]
   \<and> map_result (bs_decode_cell []) (findall_child C (Elem ROW [] None [cell_C2_x])) = Inr [Some (u ''x'')]"
  by (simp add: cell_C2_x_def b_decode_cell_def bs_decode_cell_def xml_defs tag_defs u_def)

subsection \<open>Numeric coercion\<close>

lemma floor_log2_42: "floor_log2 42 = 5"
  by (simp add: floor_log2_def Let_def pow2_def compute_bitlen)

lemma to_double_42: "to_double True 42 = Finite True 42"
  by (simp add: to_double_def floor_log2_42 Let_def pow2_def round_half_even_def)

lemma py_float_examples:
  "py_float (u ''abc'') = None"
  "py_float [] = None"
  "py_float (u ''-42'') = Some (Finite True 42)"
  "py_float (u ''inf'') = Some (Infinite False)"
  "py_float (u ''nan'') = Some NaN"
  by (simp_all add: str_defs float_defs u_def to_double_42)

lemma str_int_42: "str_int 42 = u ''42''"
  by (simp add: str_int_def str_nat.simps[of 42] str_nat.simps[of 4] u_def)

text \<open>The three examples of the specification, on each of the three pipelines.\<close>

lemma numeric_coercion_examples:
  "gs_safe_float (u ''abc'') = None"
  "gs_safe_int (u ''-42'') = Inr (Some 42)"
  "gs_safe_int [] = Inr None"
  "b_to_float (u ''abc'') = None"
  "b_review_count_of (u ''-42'') = Inr (u ''42'')"
  "b_review_count_of [] = Inr []"
  "bs_to_float (Some (u ''abc'')) = None"
  "bs_to_int (Some (u ''-42'')) = Inr (Some 42)"
  "bs_to_int (Some []) = Inr None"
  by (simp_all add: gs_safe_float_def gs_safe_int_def b_to_float_def b_review_count_of_def
        bs_to_float_def bs_to_int_def py_float_examples float_to_int_def float_abs_def
        str_int_42)

text \<open>Parsing a rating never raises: \<^verbatim>\<open>safe_float\<close> and \<^verbatim>\<open>to_float\<close> are total.\<close>

lemma rating_parse_total:
  "gs_safe_float s = py_float s" "b_to_float s = py_float s" "bs_to_float (Some s) = py_float s"
  "bs_to_float None = None"
  by (simp_all add: gs_safe_float_def b_to_float_def bs_to_float_def)

text \<open>
  Exactly which strings make the review count abort: those that \<^verbatim>\<open>float\<close> reads as an
  infinity, and in \<^verbatim>\<open>build.py\<close> and \<^verbatim>\<open>build_sites.py\<close> those it reads as a NaN as well.
\<close>

lemma gs_safe_int_aborts_iff:
  "gs_safe_int s = Inl e \<longleftrightarrow> e = OverflowError \<and> (\<exists>neg. py_float s = Some (Infinite neg))"
  by (auto simp: gs_safe_int_def float_to_int_def split: option.splits pyfloat.splits)

lemma b_review_count_of_aborts_iff:
  "b_review_count_of s = Inl e \<longleftrightarrow>
     (e = OverflowError \<and> (\<exists>neg. py_float s = Some (Infinite neg)))
     \<or> (e = ValueError \<and> py_float s = Some NaN)"
  by (auto simp: b_review_count_of_def b_to_float_def float_to_int_def
        split: option.splits pyfloat.splits)

lemma bs_to_int_aborts_iff:
  "bs_to_int (Some s) = Inl e \<longleftrightarrow>
     (e = OverflowError \<and> (\<exists>neg. py_float s = Some (Infinite neg)))
     \<or> (e = ValueError \<and> py_float s = Some NaN)"
  by (auto simp: bs_to_int_def bs_to_float_def float_to_int_def float_abs_def
        split: option.splits pyfloat.splits)

text \<open>
  C4. The review count does abort on some strings. \<^verbatim>\<open>float("inf")\<close> succeeds and
  \<^verbatim>\<open>int\<close> of an infinity raises \<^verbatim>\<open>OverflowError\<close>, which the \<^verbatim>\<open>except (TypeError, ValueError)\<close>
  of \<^verbatim>\<open>generate_sites.safe_int\<close> does not catch; in \<^verbatim>\<open>build.py\<close> and \<^verbatim>\<open>build_sites.py\<close> the
  \<^verbatim>\<open>int(...)\<close> stands outside the \<^verbatim>\<open>try\<close>, so \<^verbatim>\<open>"nan"\<close> aborts as well.
\<close>

theorem review_count_aborts_on_inf_and_nan:
  "gs_safe_int (u ''inf'') = Inl OverflowError
   \<and> b_review_count_of (u ''inf'') = Inl OverflowError
   \<and> b_review_count_of (u ''nan'') = Inl ValueError
   \<and> bs_to_int (Some (u ''inf'')) = Inl OverflowError
   \<and> bs_to_int (Some (u ''nan'')) = Inl ValueError"
  by (simp add: gs_safe_int_def b_to_float_def b_review_count_of_def bs_to_float_def bs_to_int_def
        py_float_examples float_to_int_def float_abs_def)

subsection \<open>Rendering\<close>

text \<open>
  \<^verbatim>\<open>render_detail\<close> passes \<^verbatim>\<open>title=f"{store.name}..."\<close> to the page template: the page of
  every store starts with the head of the template followed by the name as it is.
\<close>

lemma gs_render_detail_starts_with_raw_name:
  "prefix (PAGE_HEAD @ name store) (gs_render_detail store)"
  by (simp add: gs_render_detail_def PAGE_TEMPLATE_format_def PAGE_HEAD_def)

lemma html_escape_script:
  "html_escape (u ''<script>alert(1)</script>'') = u ''&lt;script&gt;alert(1)&lt;/script&gt;''"
  by (simp add: html_escape_def html_escape_char_def u_def)

lemma gs_row_markup_name:
  "gs_row_to_store ascii_lower ascii_word row_markup_name = Inr (Some store_markup_name)"
  by (simp add: row_markup_name_def store_markup_name_def gs_row_to_store_def gs_get_def str_defs
        u_def gs_safe_float_def gs_safe_int_def py_float_examples float_to_int_def gs_slugify_def
        ascii_lower_def ascii_lower_char_def ascii_word_def ascii_alnum_def or_default_def)

text \<open>
  C7. A row named \<^verbatim>\<open><script>alert(1)</script>\<close> is mapped to a store of that name, and the
  detail page of \<^verbatim>\<open>generate_sites.py\<close> for it carries that name unescaped in its \<^verbatim>\<open>title\<close> element, while
  the escaped form of the name is a different text.
\<close>

theorem gs_render_detail_title_unescaped:
  "gs_row_to_store ascii_lower ascii_word row_markup_name = Inr (Some store_markup_name)
   \<and> prefix (PAGE_HEAD @ u ''<script>alert(1)</script>'') (gs_render_detail store_markup_name)
   \<and> html_escape (name store_markup_name) = u ''&lt;script&gt;alert(1)&lt;/script&gt;''"
proof -
  have "name store_markup_name = u ''<script>alert(1)</script>''"
    by (simp add: store_markup_name_def)
  then show ?thesis
    using gs_render_detail_starts_with_raw_name [of store_markup_name] html_escape_script
      gs_row_markup_name
    by simp
qed

subsection \<open>Slugs\<close>

lemma sub_runs_set: "set (sub_runs P rep s) \<subseteq> {c \<in> set s. \<not> P c} \<union> set rep"
proof (induction P rep s rule: sub_runs.induct)
  case (1 P rep)
  then show ?case by simp
next
  case (2 P rep c cs)
  show ?case
  proof (cases "P c")
    case True
    have "set (dropWhile P cs) \<subseteq> set cs" by (rule set_dropWhileD[THEN subsetI]) 
    with True 2 show ?thesis by auto
  next
    case False
    with 2 show ?thesis by auto
  qed
qed

lemma sub_runs_hd:
  "s \<noteq> [] \<Longrightarrow> \<not> P (hd s) \<Longrightarrow> sub_runs P rep s \<noteq> [] \<and> hd (sub_runs P rep s) = hd s"
  by (cases s) auto

lemma dropWhile_hd: "dropWhile P s = [] \<or> \<not> P (hd (dropWhile P s))"
  using hd_dropWhile[of P s] by blast

lemma sub_runs_no_double: "\<not> sublist [d, d] (sub_runs (\<lambda>c. c = d) [d] s)"
proof (induction "\<lambda>c. c = d" "[d]" s rule: sub_runs.induct)
  case 1
  then show ?case by simp
next
  case (2 c cs)
  show ?case
  proof (cases "c = d")
    case True
    let ?r = "dropWhile (\<lambda>c. c = d) cs"
    have ih: "\<not> sublist [d, d] (sub_runs (\<lambda>c. c = d) [d] ?r)" using 2 True by simp
    have "?r = [] \<or> hd ?r \<noteq> d" using dropWhile_hd[of "\<lambda>c. c = d" cs] by simp
    then have "\<not> prefix [d, d] (d # sub_runs (\<lambda>c. c = d) [d] ?r)"
    proof
      assume e: "?r = []"
      have "sub_runs (\<lambda>c. c = d) [d] ?r = []" by (simp only: e sub_runs.simps)
      then show ?thesis by simp
    next
      assume h: "hd ?r \<noteq> d"
      show ?thesis
      proof (cases "?r = []")
        case True
        have "sub_runs (\<lambda>c. c = d) [d] ?r = []" by (simp only: True sub_runs.simps)
        then show ?thesis by simp
      next
        case False
        with h sub_runs_hd[of ?r "\<lambda>c. c = d" "[d]"]
        have "sub_runs (\<lambda>c. c = d) [d] ?r \<noteq> [] \<and> hd (sub_runs (\<lambda>c. c = d) [d] ?r) \<noteq> d" by simp
        then show ?thesis by (cases "sub_runs (\<lambda>c. c = d) [d] ?r") auto
      qed
    qed
    with ih True show ?thesis by (simp add: sublist_Cons_right)
  next
    case False
    with 2 show ?thesis by (simp add: sublist_Cons_right)
  qed
qed

lemma sub_runs_fix:
  "list_all (\<lambda>c. \<not> P c \<or> c = d) s \<Longrightarrow> \<not> sublist [d, d] s \<Longrightarrow> sub_runs P [d] s = s"
proof (induction P "[d]" s rule: sub_runs.induct)
  case (1 P)
  then show ?case by simp
next
  case (2 P c cs)
  have nd: "\<not> sublist [d, d] cs" using 2(4) by (simp add: sublist_Cons_right)
  have la: "list_all (\<lambda>c. \<not> P c \<or> c = d) cs" using 2(3) by simp
  show ?case
  proof (cases "P c")
    case True
    then have cd: "c = d" using 2(3) by simp
    have "dropWhile P cs = cs"
    proof (cases cs)
      case Nil then show ?thesis by simp
    next
      case (Cons e es)
      have "e \<noteq> d" using 2(4) cd Cons by (auto simp: sublist_Cons_right)
      then have "\<not> P e" using la Cons by simp
      then show ?thesis using Cons by simp
    qed
    with 2(1)[OF True] la nd True cd show ?thesis by simp
  next
    case False
    with 2(2)[OF False] la nd show ?thesis by simp
  qed
qed

lemma rstrip_prefix: "prefix (rstrip_by P s) s"
proof -
  have "suffix (dropWhile P (rev s)) (rev s)" by (rule suffix_dropWhile)
  then show ?thesis unfolding rstrip_by_def by (metis rev_rev_ident suffix_to_prefix)
qed

lemma lstrip_suffix: "suffix (lstrip_by P s) s"
  by (simp add: lstrip_by_def suffix_dropWhile)

lemma strip_sublist: "sublist (strip_by P s) s"
  unfolding strip_by_def
  by (meson rstrip_prefix lstrip_suffix prefix_imp_sublist suffix_imp_sublist sublist_order.order.trans)

lemma rstrip_last: "rstrip_by P s = [] \<or> \<not> P (last (rstrip_by P s))"
  using dropWhile_hd[of P "rev s"] by (auto simp: rstrip_by_def last_rev)

lemma rstrip_hd: "rstrip_by P s \<noteq> [] \<Longrightarrow> hd (rstrip_by P s) = hd s"
  using rstrip_prefix[of P s] by (metis hd_append2 prefix_def)

lemma strip_ends: "strip_by P s = [] \<or> (\<not> P (hd (strip_by P s)) \<and> \<not> P (last (strip_by P s)))"
proof (cases "strip_by P s = []")
  case True then show ?thesis by simp
next
  case False
  then have ne: "lstrip_by P s \<noteq> []" by (auto simp: strip_by_def rstrip_by_def)
  have "hd (strip_by P s) = hd (lstrip_by P s)" using False rstrip_hd by (simp add: strip_by_def)
  moreover have "\<not> P (hd (lstrip_by P s))" using ne dropWhile_hd[of P s] unfolding lstrip_by_def by blast
  moreover have "\<not> P (last (strip_by P s))" using False rstrip_last[of P "lstrip_by P s"] by (simp add: strip_by_def)
  ultimately show ?thesis by simp
qed

lemma rstrip_fix: "s = [] \<or> \<not> P (last s) \<Longrightarrow> rstrip_by P s = s"
  by (cases s rule: rev_cases) (auto simp: rstrip_by_def)

lemma lstrip_fix: "s = [] \<or> \<not> P (hd s) \<Longrightarrow> lstrip_by P s = s"
  by (cases s) (auto simp: lstrip_by_def)

lemma strip_fix: "s = [] \<or> (\<not> P (hd s) \<and> \<not> P (last s)) \<Longrightarrow> strip_by P s = s"
  by (auto simp: strip_by_def lstrip_fix rstrip_fix)

lemma u_dash: "u ''-'' = [45]"
  by (simp add: u_def)

lemma valid_slug_store: "valid_slug (u ''store'')"
  by (simp add: valid_slug_def slug_char_def b_allowed_def u_def sublist_Cons_right)

lemma no_double_sublist: "\<not> sublist x s \<Longrightarrow> sublist t s \<Longrightarrow> \<not> sublist x t"
  using sublist_order.order.trans by blast

lemma b_slugify_valid: "valid_slug (b_slugify lw x)"
proof -
  define t2 where "t2 = sub_runs (\<lambda>c. \<not> b_allowed c) [45] (lw x)"
  define t2' where "t2' = sub_runs (\<lambda>c. c = 45) [45] t2"
  define t3 where "t3 = strip_by (\<lambda>c. c = 45) t2'"
  define t4 where "t4 = rstrip_by (\<lambda>c. c = 45) (take 60 t3)"
  have res: "b_slugify lw x = (if t4 = [] then u ''store'' else t4)"
    by (simp add: b_slugify_def Let_def u_dash t2_def t2'_def t3_def t4_def)
  have s2: "set t2 \<subseteq> Collect slug_char"
    using sub_runs_set[of "\<lambda>c. \<not> b_allowed c" "[45]" "lw x"] by (auto simp: t2_def slug_char_def)
  have s2': "set t2' \<subseteq> Collect slug_char"
    using sub_runs_set[of "\<lambda>c. c = 45" "[45]" t2] s2 by (auto simp: t2'_def slug_char_def)
  have n2': "\<not> sublist [45, 45] t2'"
    unfolding t2'_def by (rule sub_runs_no_double)
  have sub3: "sublist t3 t2'" unfolding t3_def by (rule strip_sublist)
  have pre4: "prefix t4 (take 60 t3)" unfolding t4_def by (rule rstrip_prefix)
  then have sub43: "sublist t4 t3"
    by (meson prefix_imp_sublist sublist_take sublist_order.order.trans)
  then have sub4: "sublist t4 t2'" using sub3 sublist_order.order.trans by blast
  have "valid_slug t4" if ne: "t4 \<noteq> []"
  proof -
    have len: "length t4 \<le> 60"
      using pre4 prefix_length_le by fastforce
    have chars: "list_all slug_char t4"
      using set_mono_sublist[OF sub4] s2' by (auto simp: list_all_iff)
    have nd: "\<not> sublist [45, 45] t4" using n2' sub4 by (rule no_double_sublist)
    have t3ne: "t3 \<noteq> []" using ne pre4 by auto
    have "hd t4 = hd (take 60 t3)" using ne by (simp add: t4_def rstrip_hd)
    also have "\<dots> = hd t3" using t3ne by (cases t3) simp_all
    finally have h: "hd t4 \<noteq> 45" using strip_ends[of "\<lambda>c. c = 45" t2'] t3ne by (simp add: t3_def)
    have l: "last t4 \<noteq> 45" using rstrip_last[of "\<lambda>c. c = 45" "take 60 t3"] ne by (simp add: t4_def)
    show ?thesis using ne len chars nd h l by (simp add: valid_slug_def)
  qed
  then show ?thesis using res valid_slug_store by simp
qed

lemma b_slugify_fix:
  assumes v: "valid_slug y" and lw: "lw y = y"
  shows "b_slugify lw y = y"
proof -
  have chars: "list_all (\<lambda>c. \<not> \<not> b_allowed c \<or> c = 45) y"
    using v by (auto simp: valid_slug_def slug_char_def list_all_iff)
  have nd: "\<not> sublist [45, 45] y" using v by (simp add: valid_slug_def)
  have a: "sub_runs (\<lambda>c. \<not> b_allowed c) [45] y = y" using chars nd by (rule sub_runs_fix)
  have b: "sub_runs (\<lambda>c. c = 45) [45] y = y"
    by (rule sub_runs_fix) (simp_all add: nd list_all_iff)
  have c: "strip_by (\<lambda>c. c = 45) y = y" using v by (intro strip_fix) (simp add: valid_slug_def)
  have d: "take 60 y = y" using v by (simp add: valid_slug_def)
  have e: "rstrip_by (\<lambda>c. c = 45) y = y" using v by (intro rstrip_fix) (simp add: valid_slug_def)
  have "y \<noteq> []" using v by (simp add: valid_slug_def)
  then show ?thesis by (simp add: b_slugify_def Let_def u_dash lw a b c d e)
qed

lemma squeeze_run:
  "P c \<Longrightarrow> map (\<lambda>c. if P c then d else c) (squeeze P (c # cs))
     = d # map (\<lambda>c. if P c then d else c) (squeeze P (dropWhile P cs))"
proof (induction cs arbitrary: c)
  case Nil
  then show ?case by simp
next
  case (Cons e es)
  then show ?case by (cases "P e") simp_all
qed

lemma squeeze_keep:
  "\<not> P c \<Longrightarrow> squeeze P (c # cs) = c # squeeze P cs"
  by (cases cs) simp_all

lemma sub_runs_squeeze:
  "sub_runs P [d] s = map (\<lambda>c. if P c then d else c) (squeeze P s)"
proof (induction P "[d]" s rule: sub_runs.induct)
  case (1 P)
  then show ?case by simp
next
  case (2 P c cs)
  show ?case
  proof (cases "P c")
    case True
    then show ?thesis using 2(1) squeeze_run[of P c d cs] by simp
  next
    case False
    then show ?thesis using 2(2) by (simp add: squeeze_keep)
  qed
qed

lemma b_slugify_spec: "b_slugify lw x = slugify_spec lw x"
proof -
  have a: "sub_runs (\<lambda>c. \<not> b_allowed c) [45] (lw x)
      = map (\<lambda>c. if b_allowed c then c else 45) (squeeze (\<lambda>c. \<not> b_allowed c) (lw x))"
    by (simp add: sub_runs_squeeze if_distrib cong: if_cong)
  have b: "sub_runs (\<lambda>c. c = 45) [45] t = squeeze (\<lambda>c. c = 45) t" for t
    by (simp add: sub_runs_squeeze map_idI)
  show ?thesis
    by (simp add: b_slugify_def slugify_spec_def u_dash a b)
qed

lemma gs_slugify_fix:
  assumes v: "gs_clean isw y" and lw: "lw y = y" and sp: "\<forall>c. is_space c \<longrightarrow> \<not> isw c"
  shows "gs_slugify lw isw y = y"
proof -
  have ne: "y \<noteq> []" using v by (simp add: gs_clean_def)
  have all: "\<forall>c\<in>set y. isw c \<or> c = 45" using v by (simp add: gs_clean_def list_all_iff)
  have "isw (hd y)" "isw (last y)" using v ne all by (auto simp: gs_clean_def)
  then have "\<not> is_space (hd y) \<and> \<not> is_space (last y)" using sp by blast
  then have s: "strip y = y" unfolding strip_def by (intro strip_fix) simp
  have chars: "list_all (\<lambda>c. \<not> \<not> isw c \<or> c = 45) y" using all by (simp add: list_all_iff)
  have nd: "\<not> sublist [45, 45] y" using v by (simp add: gs_clean_def)
  have a: "sub_runs (\<lambda>c. \<not> isw c) [45] y = y" using chars nd by (rule sub_runs_fix)
  have b: "sub_runs (\<lambda>c. c = 45) [45] y = y"
    by (rule sub_runs_fix) (simp_all add: nd list_all_iff)
  have c: "strip_by (\<lambda>c. c = 45) y = y" using v by (intro strip_fix) (simp add: gs_clean_def)
  show ?thesis using ne by (simp add: gs_slugify_def Let_def u_dash s lw a b c)
qed

lemma ascii_lower_fix: "list_all (\<lambda>c. \<not> is_AZ c) s \<Longrightarrow> ascii_lower s = s"
  by (induction s) (auto simp: ascii_lower_def ascii_lower_char_def is_AZ_def)

lemma space_not_word: "\<forall>c. is_space c \<longrightarrow> \<not> ascii_word c"
  by (auto simp: is_space_def ascii_word_def ascii_alnum_def)

lemma gs_slugify_no_truncation: "gs_slugify ascii_lower ascii_word (replicate 61 97) = replicate 61 97"
proof (rule gs_slugify_fix)
  have "\<not> sublist [45, 45] (replicate 61 (97::nat))"
    using set_mono_sublist[of "[45, 45]" "replicate 61 (97::nat)"] by auto
  then show "gs_clean ascii_word (replicate 61 97)"
    by (simp add: gs_clean_def list_all_iff ascii_word_def ascii_alnum_def hd_replicate last_replicate)
  show "ascii_lower (replicate 61 97) = replicate 61 97"
    by (rule ascii_lower_fix) (simp add: list_all_iff is_AZ_def)
  show "\<forall>c. is_space c \<longrightarrow> \<not> ascii_word c" by (rule space_not_word)
qed

lemma gs_slugify_keeps_underscore: "gs_slugify ascii_lower ascii_word (u ''a_b'') = u ''a_b''"
  by (simp add: gs_slugify_def str_defs ascii_lower_def ascii_lower_char_def ascii_word_def ascii_alnum_def u_def)

lemma bs_slugify_cjk_fallback: "bs_slugify ascii_lower UNNAMED 7 = u ''shop-07''"
  by (simp add: bs_slugify_def UNNAMED_def str_defs ascii_lower_def ascii_alnum_def format_02d_def
        str_int_def str_nat.simps[of 7] u_def)

lemma b_slugify_example: "b_slugify ascii_lower name_example = slug_example"
  by (simp add: name_example_def slug_example_def b_slugify_def str_defs ascii_lower_def
        ascii_lower_char_def b_allowed_def u_def)

lemma b_slugify_empty: "b_slugify ascii_lower [] = u ''store''"
  by (simp add: b_slugify_def str_defs ascii_lower_def)

lemma ascii_lower_valid_slug: "valid_slug y \<Longrightarrow> ascii_lower y = y"
  by (rule ascii_lower_fix)
     (auto simp: valid_slug_def list_all_iff slug_char_def b_allowed_def is_AZ_def)

text \<open>
  C3 does not hold of every \<^verbatim>\<open>slugify\<close> of the repository. The slug functions of
  \<^verbatim>\<open>generate_sites.py\<close> and \<^verbatim>\<open>build_sites.py\<close> are other algorithms:
  the first keeps the underscore, which is no allowed character of the specification, and
  does not truncate (61 letters stay 61 letters); the second treats CJK text as
  separators and falls back to a token made from the record's index.
\<close>

theorem slugify_variants_differ:
  "gs_slugify ascii_lower ascii_word (u ''a_b'') = u ''a_b''
   \<and> \<not> slug_char 95
   \<and> length (gs_slugify ascii_lower ascii_word (replicate 61 97)) = 61
   \<and> bs_slugify ascii_lower UNNAMED 7 = u ''shop-07''"
  by (simp add: gs_slugify_keeps_underscore gs_slugify_no_truncation bs_slugify_cjk_fallback
        slug_char_def b_allowed_def)

text \<open>
  C3, for \<^verbatim>\<open>build.py\<close>. \<^verbatim>\<open>build.slugify\<close> computes the steps of the specification, for every name and
  whatever the lowercasing does: its result is never empty, has at most 60 code points,
  consists of allowed characters and separators only, has no two separators in a row and
  none at either end.
\<close>

theorem b_slugify_meets_spec:
  "b_slugify lw x = slugify_spec lw x
   \<and> b_slugify lw x \<noteq> []
   \<and> length (b_slugify lw x) \<le> 60
   \<and> list_all slug_char (b_slugify lw x)
   \<and> \<not> sublist [45, 45] (b_slugify lw x)
   \<and> hd (b_slugify lw x) \<noteq> 45
   \<and> last (b_slugify lw x) \<noteq> 45"
  using b_slugify_spec [of lw x] b_slugify_valid [of lw x] by (simp add: valid_slug_def)

theorem b_slugify_meets_spec_witness:
  "b_slugify ascii_lower name_example = slug_example
   \<and> slugify_spec ascii_lower name_example = slug_example
   \<and> length slug_example \<le> 60
   \<and> b_slugify ascii_lower [] = u ''store''"
proof -
  have "b_slugify ascii_lower name_example = slugify_spec ascii_lower name_example"
    and "length (b_slugify ascii_lower name_example) \<le> 60"
    using b_slugify_meets_spec [of ascii_lower name_example] by blast+
  then show ?thesis by (simp add: b_slugify_example b_slugify_empty)
qed

text \<open>
  C9. Slugifying is idempotent. In \<^verbatim>\<open>build.py\<close> a clean slug that lowercasing leaves alone is
  returned as it is, and slugifying any name twice gives what slugifying it once gives,
  provided lowercasing leaves clean slugs alone. In \<^verbatim>\<open>generate_sites.py\<close> a clean slug that
  lowercasing leaves alone is returned as it is, provided no whitespace is a word
  character.
\<close>

theorem slugify_idempotent:
  "(valid_slug x \<and> lw x = x \<longrightarrow> b_slugify lw x = x \<and> b_slugify lw (b_slugify lw x) = b_slugify lw x)
   \<and> ((\<forall>y. valid_slug y \<longrightarrow> lw y = y) \<longrightarrow> b_slugify lw (b_slugify lw z) = b_slugify lw z)
   \<and> (gs_clean isw x \<and> lw x = x \<and> (\<forall>c. is_space c \<longrightarrow> \<not> isw c) \<longrightarrow>
        gs_slugify lw isw x = x \<and> gs_slugify lw isw (gs_slugify lw isw x) = gs_slugify lw isw x)"
proof (intro conjI impI)
  assume h: "valid_slug x \<and> lw x = x"
  then show "b_slugify lw x = x" by (simp add: b_slugify_fix)
  then show "b_slugify lw (b_slugify lw x) = b_slugify lw x" by simp
next
  assume h: "\<forall>y. valid_slug y \<longrightarrow> lw y = y"
  have v: "valid_slug (b_slugify lw z)" by (rule b_slugify_valid)
  with h have "lw (b_slugify lw z) = b_slugify lw z" by blast
  with v show "b_slugify lw (b_slugify lw z) = b_slugify lw z" by (rule b_slugify_fix)
next
  assume h: "gs_clean isw x \<and> lw x = x \<and> (\<forall>c. is_space c \<longrightarrow> \<not> isw c)"
  then show "gs_slugify lw isw x = x" by (simp add: gs_slugify_fix)
  then show "gs_slugify lw isw (gs_slugify lw isw x) = gs_slugify lw isw x" by simp
qed

lemma valid_slug_abc_co: "valid_slug (u ''abc-co'')"
  by (simp add: valid_slug_def slug_char_def b_allowed_def u_def sublist_Cons_right)

lemma gs_clean_abc_co: "gs_clean ascii_word (u ''abc-co'')"
  by (simp add: gs_clean_def ascii_word_def ascii_alnum_def u_def sublist_Cons_right)

theorem slugify_idempotent_witness:
  "valid_slug (u ''abc-co'') \<and> ascii_lower (u ''abc-co'') = u ''abc-co''
   \<and> b_slugify ascii_lower (u ''abc-co'') = u ''abc-co''
   \<and> b_slugify ascii_lower (b_slugify ascii_lower (u ''ABC  Co!'')) = b_slugify ascii_lower (u ''ABC  Co!'')
   \<and> gs_clean ascii_word (u ''abc-co'')
   \<and> gs_slugify ascii_lower ascii_word (u ''abc-co'') = u ''abc-co''
   \<and> gs_slugify ascii_lower ascii_word (gs_slugify ascii_lower ascii_word (u ''abc-co''))
       = gs_slugify ascii_lower ascii_word (u ''abc-co'')"
  using slugify_idempotent [of "u ''abc-co''" ascii_lower "u ''ABC  Co!''" ascii_word]
    valid_slug_abc_co gs_clean_abc_co ascii_lower_valid_slug space_not_word
  by simp

subsection \<open>The record mapper\<close>

lemma map_result_Inr:
  "map_result f xs = Inr ys \<Longrightarrow> length ys = length xs \<and> (\<forall>i<length xs. f (xs ! i) = Inr (ys ! i))"
proof (induction xs arbitrary: ys)
  case Nil
  then show ?case by simp
next
  case (Cons x xs)
  from Cons.prems obtain y ys' where fx: "f x = Inr y" and r: "map_result f xs = Inr ys'" and ys: "ys = y # ys'"
    by (auto split: sum.splits)
  from Cons.IH[OF r] fx ys show ?case by (auto simp: nth_Cons split: nat.splits)
qed

lemma length_map_filter_le: "length (List.map_filter f xs) \<le> length xs"
  by (induction xs) (auto simp: List.map_filter_simps split: option.splits)

lemma length_map_filter_less:
  "\<exists>x\<in>set xs. f x = None \<Longrightarrow> length (List.map_filter f xs) < length xs"
proof (induction xs)
  case Nil
  then show ?case by simp
next
  case (Cons x xs)
  show ?case
  proof (cases "f x")
    case None
    then show ?thesis using length_map_filter_le[of f xs] by (simp add: List.map_filter_simps)
  next
    case (Some a)
    then have "\<exists>x\<in>set xs. f x = None" using Cons.prems by auto
    then show ?thesis using Cons.IH Some by (simp add: List.map_filter_simps)
  qed
qed

lemma gs_empty_name_skipped:
  "strip (gs_get row 5) = [] \<Longrightarrow> gs_row_to_store lw isw row = Inr None"
  by (simp add: gs_row_to_store_def)

lemma gs_stores_fewer_than_rows:
  assumes ok: "gs_stores_of_rows lw isw rows = Inr stores"
    and ex: "\<exists>row\<in>set (drop 1 rows). strip (gs_get row 5) = []"
  shows "length stores < length (drop 1 rows)"
proof -
  from ok obtain rs where rs: "map_result (gs_row_to_store lw isw) (drop 1 rows) = Inr rs"
    and st: "stores = List.map_filter (\<lambda>s. s) rs"
    by (auto simp: gs_stores_of_rows_def split: sum.splits)
  from map_result_Inr[OF rs] have len: "length rs = length (drop 1 rows)"
    and nth: "\<forall>i<length (drop 1 rows). gs_row_to_store lw isw (drop 1 rows ! i) = Inr (rs ! i)" by auto
  from ex obtain i where i: "i < length (drop 1 rows)" and e: "strip (gs_get (drop 1 rows ! i) 5) = []"
    by (auto simp: in_set_conv_nth)
  have "rs ! i = None" using nth i gs_empty_name_skipped[OF e, of lw isw] by auto
  then have "\<exists>x\<in>set rs. x = None" using i len by (metis nth_mem)
  then have "length (List.map_filter (\<lambda>s. s) rs) < length rs" by (rule length_map_filter_less)
  then show ?thesis using st len by simp
qed

lemma replace_all_Nil: "replace_all old new [] = (if old = [] then new else [])"
  by (simp add: replace_all.simps[of old new "[]"])

lemma b_slugify_UNNAMED: "b_slugify ascii_lower UNNAMED = UNNAMED"
  by (simp add: b_slugify_def UNNAMED_def str_defs ascii_lower_def ascii_lower_char_def b_allowed_def u_def)

lemma strip_Nil: "strip [] = []"
  by (simp add: str_defs)

text \<open>The record \<^verbatim>\<open>build.parse_store\<close> makes of the row without a name.\<close>

lemma b_parse_store_empty_name:
  "b_parse_store ascii_lower [u ''https://maps.example/1'', []] =
     Inr \<lparr> b_name = UNNAMED, b_slug = UNNAMED, b_map_url = u ''https://maps.example/1'',
           b_rating = u ''N/A'', b_review_count = [], b_category = [], b_address = [],
           b_status = [], b_closing = [], b_phone = [], b_image_url = [],
           b_default_avatar = [], b_snippet = [] \<rparr>"
  by (simp add: b_parse_store_def b_get_def b_to_float_def b_review_count_of_def
        py_float_examples startswith_def Let_def b_slugify_UNNAMED replace_all_Nil lstrip_by_def
        strip_Nil)
     (simp add: u_def)

lemma b_keeps_empty_name_row: "map_sum id (map b_name) (b_stores_of_rows ascii_lower rows_empty_name) = Inr [UNNAMED]"
  by (simp add: b_stores_of_rows_def rows_empty_name_def b_parse_store_def b_get_def
      b_to_float_def b_review_count_of_def py_float_examples startswith_def Let_def)

lemma gs_safe_int_error: "gs_safe_int s = Inl e \<Longrightarrow> e = OverflowError"
  by (auto simp: gs_safe_int_def float_to_int_def split: option.splits pyfloat.splits sum.splits if_splits)

lemma b_review_count_of_error: "b_review_count_of s = Inl e \<Longrightarrow> e = OverflowError \<or> e = ValueError"
  by (auto simp: b_review_count_of_def float_to_int_def split: option.splits pyfloat.splits sum.splits)

lemma gs_short_row_returns: "length row \<le> 7 \<Longrightarrow> \<exists>r. gs_row_to_store lw isw row = Inr r"
  by (simp add: gs_row_to_store_def Let_def gs_get_def strip_Nil gs_safe_int_def py_float_examples)

lemma b_short_row_returns: "length row \<le> 3 \<Longrightarrow> \<exists>s. b_parse_store lw row = Inr s"
  by (simp add: b_parse_store_def Let_def b_get_def b_review_count_of_def b_to_float_def py_float_examples)

lemma gs_row_to_store_error:
  "gs_row_to_store lw isw row = Inl e \<Longrightarrow> e = OverflowError \<and> 7 < length row"
proof -
  assume a: "gs_row_to_store lw isw row = Inl e"
  have "7 < length row" using a gs_short_row_returns[of row lw isw] by (cases "length row \<le> 7") auto
  moreover from a have "gs_safe_int (strip (gs_get row 7)) = Inl e"
    by (auto simp: gs_row_to_store_def Let_def split: if_splits sum.splits)
  ultimately show ?thesis using gs_safe_int_error by blast
qed

lemma b_parse_store_error:
  "b_parse_store lw row = Inl e \<Longrightarrow> (e = OverflowError \<or> e = ValueError) \<and> 3 < length row"
proof -
  assume a: "b_parse_store lw row = Inl e"
  have "3 < length row" using a b_short_row_returns[of row lw] by (cases "length row \<le> 3") auto
  moreover from a have "b_review_count_of (b_get row 3) = Inl e"
    by (auto simp: b_parse_store_def Let_def split: sum.splits)
  ultimately show ?thesis using b_review_count_of_error by blast
qed

lemma floor_log2_3: "floor_log2 3 = 1"
  by (simp add: floor_log2_def Let_def pow2_def compute_bitlen)

lemma to_double_3: "to_double True 3 = Finite True 3"
  by (simp add: to_double_def floor_log2_3 Let_def pow2_def round_half_even_def)

lemma quotient_of_9_2: "quotient_of (9 / 2) = (9, 2)"
proof -
  have e: "(9 / 2 :: rat) = Fract 9 2" by (simp add: Fract_of_int_quotient)
  have "quotient_of (Fract 9 2) = (9, 2)" by (simp add: quotient_of_Fract Rat.normalize_def)
  then show ?thesis by (simp only: e)
qed

lemma floor_log2_45: "floor_log2 (9 / 2) = 2"
  by (simp add: floor_log2_def Let_def pow2_def compute_bitlen quotient_of_9_2)

lemma to_double_45: "to_double False (9 / 2) = Finite False (9 / 2)"
  by (simp add: to_double_def floor_log2_45 Let_def pow2_def round_half_even_def)

lemma py_float_45: "py_float (u ''4.5'') = Some (Finite False (9 / 2))"
  by (simp add: str_defs float_defs u_def to_double_45)

lemma py_float_m3: "py_float (u ''-3'') = Some (Finite True 3)"
  by (simp add: str_defs float_defs u_def to_double_3)

lemma format_1f_45: "format_1f (Finite False (9 / 2)) = u ''4.5''"
  by (simp add: format_1f_def round_half_even_def Let_def str_nat.simps[of 4] str_nat.simps[of 5] u_def)

lemmas py_float_unfolded = py_float_45[unfolded u_def, simplified] py_float_m3[unfolded u_def, simplified]

lemma gs_row_test_shop: "gs_row_to_store ascii_lower ascii_word row_test_shop = Inr (Some store_test_shop)"
  by (simp add: row_test_shop_def store_test_shop_def gs_row_to_store_def gs_get_def str_defs u_def
        gs_safe_float_def gs_safe_int_def py_float_unfolded float_to_int_def gs_slugify_def
        ascii_lower_def ascii_lower_char_def ascii_word_def ascii_alnum_def or_default_def)

text \<open>
  The texts the pages show for the rating and the review count of that record: the
  rating with one decimal, the review count without its sign.
\<close>

lemma test_shop_texts:
  "gs_rating_text store_test_shop = u ''4.5''
   \<and> gs_reviews_text store_test_shop = [65288] @ u ''3 '' @ [21063, 35413, 35542, 65289]"
  by (simp add: gs_rating_text_def gs_reviews_text_def store_test_shop_def format_1f_45
        str_int_def str_nat.simps[of 3]) (simp add: u_def)

lemma gs_row_blank_name: "strip (gs_get row_blank_name 5) = []"
  by (simp add: row_blank_name_def gs_get_def str_defs u_def)

lemma gs_stores_example: "gs_stores_of_rows ascii_lower ascii_word rows_example = Inr [store_test_shop]"
  by (simp add: gs_stores_of_rows_def rows_example_def gs_row_test_shop
      gs_empty_name_skipped[OF gs_row_blank_name] List.map_filter_simps)

text \<open>
  C5 does not hold of \<^verbatim>\<open>build.py\<close>, where a row with an empty name is not skipped: \<^verbatim>\<open>parse_store\<close> gives it the
  placeholder name, and \<^verbatim>\<open>main\<close> keeps one record per data row.
\<close>

theorem b_keeps_rows_without_name:
  "map_sum id (map b_name) (b_stores_of_rows ascii_lower rows_empty_name) = Inr [UNNAMED]
   \<and> b_get (rows_empty_name ! 1) 1 = []
   \<and> length (drop 1 rows_empty_name) = 1"
  by (simp add: b_keeps_empty_name_row) (simp add: rows_empty_name_def b_get_def)

text \<open>
  C5, for \<^verbatim>\<open>generate_sites.py\<close>. A data row whose name field is empty after trimming is mapped
  to no record, and when the mapping of all rows completes, the record list is strictly
  shorter than the list of data rows as soon as one of them has an empty name.
\<close>

theorem gs_empty_name_rows_excluded:
  "(strip (gs_get row 5) = [] \<longrightarrow> gs_row_to_store lw isw row = Inr None)
   \<and> (gs_stores_of_rows lw isw rows = Inr stores
        \<and> (\<exists>r\<in>set (drop 1 rows). strip (gs_get r 5) = [])
      \<longrightarrow> length stores < length (drop 1 rows))"
  using gs_empty_name_skipped [of row lw isw] gs_stores_fewer_than_rows [of lw isw rows stores]
  by blast

theorem gs_empty_name_rows_excluded_witness:
  "strip (gs_get row_blank_name 5) = []
   \<and> gs_row_to_store ascii_lower ascii_word row_blank_name = Inr None
   \<and> gs_stores_of_rows ascii_lower ascii_word rows_example = Inr [store_test_shop]
   \<and> length [store_test_shop] < length (drop 1 rows_example)"
proof -
  have "\<exists>r\<in>set (drop 1 rows_example). strip (gs_get r 5) = []"
    using gs_row_blank_name by (simp add: rows_example_def)
  then show ?thesis
    using gs_empty_name_rows_excluded [of row_blank_name ascii_lower ascii_word rows_example "[store_test_shop]"]
      gs_row_blank_name gs_stores_example
    by blast
qed

text \<open>
  C6. Reading a column at or beyond the end of a row gives the empty string, in both
  \<^verbatim>\<open>get\<close> helpers. A row too short to have the review-count column is always mapped without
  an exception; for any row, the only exception the mapper can raise comes from converting
  a review count that is present (at least 8 columns in \<^verbatim>\<open>generate_sites.py\<close>, at least 4 in
  \<^verbatim>\<open>build.py\<close>), and it is never an \<^verbatim>\<open>IndexError\<close>.
\<close>

theorem record_mapping_total_on_short_rows:
  "(length row \<le> i \<longrightarrow> gs_get row i = [] \<and> b_get row i = [])
   \<and> (length row \<le> 7 \<longrightarrow> (\<exists>r. gs_row_to_store lw isw row = Inr r))
   \<and> (length row \<le> 3 \<longrightarrow> (\<exists>s. b_parse_store lw row = Inr s))
   \<and> (gs_row_to_store lw isw row = Inl e \<longrightarrow> e = OverflowError \<and> 7 < length row)
   \<and> (b_parse_store lw row = Inl e \<longrightarrow> (e = OverflowError \<or> e = ValueError) \<and> 3 < length row)"
  using gs_short_row_returns [of row lw isw] b_short_row_returns [of row lw]
    gs_row_to_store_error [of lw isw row e] b_parse_store_error [of lw row e]
  by (simp add: gs_get_def b_get_def)

theorem record_mapping_total_on_short_rows_witness:
  "length row_short \<le> 5 \<and> gs_get row_short 5 = [] \<and> b_get row_short 5 = []
   \<and> (\<exists>r. gs_row_to_store ascii_lower ascii_word row_short = Inr r)
   \<and> (\<exists>s. b_parse_store ascii_lower row_short = Inr s)
   \<and> gs_row_to_store ascii_lower ascii_word row_short \<noteq> Inl IndexError
   \<and> b_parse_store ascii_lower row_short \<noteq> Inl IndexError"
proof -
  have len: "length row_short = 3" by (simp add: row_short_def)
  show ?thesis
    using record_mapping_total_on_short_rows [of row_short 5 ascii_lower ascii_word IndexError] len
    by auto
qed

subsection \<open>Running the generator twice\<close>

declare mkdir_parents.simps [simp del]

lemma enter_None_iff:
  "enter t here cs = None \<longleftrightarrow> (\<forall>k. 0 < k \<and> k \<le> length cs \<longrightarrow> t (here @ take k cs) = Some Dir)"
proof (induction cs arbitrary: here)
  case Nil
  then show ?case by simp
next
  case (Cons c cs)
  show ?case
  proof (cases "t (here @ [c])")
    case None
    then show ?thesis by (auto intro!: exI[of _ 1])
  next
    case (Some n)
    show ?thesis
    proof (cases n)
      case Dir
      have "(\<forall>k. 0 < k \<and> k \<le> length (c # cs) \<longrightarrow> t (here @ take k (c # cs)) = Some Dir)
        \<longleftrightarrow> (\<forall>k. 0 < k \<and> k \<le> length cs \<longrightarrow> t ((here @ [c]) @ take k cs) = Some Dir)"
      proof
        assume a: "\<forall>k. 0 < k \<and> k \<le> length (c # cs) \<longrightarrow> t (here @ take k (c # cs)) = Some Dir"
        show "\<forall>k. 0 < k \<and> k \<le> length cs \<longrightarrow> t ((here @ [c]) @ take k cs) = Some Dir"
        proof (intro allI impI)
          fix k assume "0 < k \<and> k \<le> length cs"
          then have "t (here @ take (Suc k) (c # cs)) = Some Dir" using a by auto
          then show "t ((here @ [c]) @ take k cs) = Some Dir" by simp
        qed
      next
        assume a: "\<forall>k. 0 < k \<and> k \<le> length cs \<longrightarrow> t ((here @ [c]) @ take k cs) = Some Dir"
        show "\<forall>k. 0 < k \<and> k \<le> length (c # cs) \<longrightarrow> t (here @ take k (c # cs)) = Some Dir"
        proof (intro allI impI)
          fix k assume k: "0 < k \<and> k \<le> length (c # cs)"
          then obtain j where j: "k = Suc j" by (cases k) auto
          show "t (here @ take k (c # cs)) = Some Dir"
          proof (cases j)
            case 0
            then show ?thesis using Some Dir j by simp
          next
            case (Suc i)
            then have "t ((here @ [c]) @ take j cs) = Some Dir" using a k j by auto
            then show ?thesis using j by simp
          qed
        qed
      qed
      then show ?thesis using Some Dir Cons.IH[of "here @ [c]"] by simp
    next
      case (File x)
      then show ?thesis using Some by (auto intro!: exI[of _ 1])
    qed
  qed
qed


lemma is_dir_iff: "is_dir t p \<longleftrightarrow> (\<forall>q\<in>parts p. t q = Some Dir)"
proof -
  have "(\<forall>k. 0 < k \<and> k \<le> length p \<longrightarrow> t (take k p) = Some Dir) \<longleftrightarrow> (\<forall>q\<in>parts p. t q = Some Dir)"
  proof
    assume a: "\<forall>k. 0 < k \<and> k \<le> length p \<longrightarrow> t (take k p) = Some Dir"
    show "\<forall>q\<in>parts p. t q = Some Dir"
    proof
      fix q assume "q \<in> parts p"
      then have q: "q \<noteq> []" "prefix q p" by (auto simp: parts_def)
      then have "q = take (length q) p" "0 < length q" "length q \<le> length p"
        by (auto simp: prefix_def)
      then show "t q = Some Dir" using a by metis
    qed
  next
    assume a: "\<forall>q\<in>parts p. t q = Some Dir"
    show "\<forall>k. 0 < k \<and> k \<le> length p \<longrightarrow> t (take k p) = Some Dir"
    proof (intro allI impI)
      fix k assume "0 < k \<and> k \<le> length p"
      then have "take k p \<in> parts p" by (auto simp: parts_def take_is_prefix)
      then show "t (take k p) = Some Dir" using a by blast
    qed
  qed
  then show ?thesis using enter_None_iff[of t "[]" p] by (simp add: is_dir_def)
qed

lemma parts_butlast: "p \<noteq> [] \<Longrightarrow> parts p = insert p (parts (butlast p))"
proof -
  assume p: "p \<noteq> []"
  then obtain xs x where px: "p = xs @ [x]" by (metis snoc_eq_iff_butlast)
  show ?thesis unfolding px by (auto simp: parts_def)
qed

lemma parts_Nil: "parts [] = {}"
  by (auto simp: parts_def)

lemma not_in_parts_butlast: "p \<notin> parts (butlast p)"
proof
  assume "p \<in> parts (butlast p)"
  then have "prefix p (butlast p)" "p \<noteq> []" by (auto simp: parts_def)
  then show False by (cases p rule: rev_cases) (auto dest: prefix_length_le)
qed

lemma is_dir_butlast: "p \<noteq> [] \<Longrightarrow> is_dir t p \<longleftrightarrow> is_dir t (butlast p) \<and> t p = Some Dir"
  by (auto simp: is_dir_iff parts_butlast)

lemma os_mkdir_cases:
  assumes that: "os_mkdir ok p t = (r, t')"
  shows "(r = None \<and> p \<noteq> [] \<and> is_dir t (butlast p) \<and> t p = None \<and> ok (last p) \<and> t' = t(p \<mapsto> Dir))
     \<or> (r \<noteq> None \<and> t' = t)"
proof (cases "p = []")
  case True
  then show ?thesis using that by (auto simp: os_mkdir_def)
next
  case False
  show ?thesis
  proof (cases "enter t [] (butlast p)")
    case (Some e)
    then show ?thesis using that False by (auto simp: os_mkdir_def)
  next
    case None
    then show ?thesis using that False
      by (cases "t p") (auto simp: os_mkdir_def is_dir_def split: if_splits)
  qed
qed

lemma os_mkdir_exists: "is_dir t p \<Longrightarrow> \<exists>e. os_mkdir ok p t = (Some e, t) \<and> e \<noteq> FileNotFoundError"
proof (cases "p = []")
  case True
  then show ?thesis by (simp add: os_mkdir_def)
next
  case False
  assume "is_dir t p"
  then have "enter t [] (butlast p) = None" "t p = Some Dir"
    using False by (auto simp: is_dir_butlast) (simp add: is_dir_def)
  then show ?thesis using False by (simp add: os_mkdir_def)
qed

lemma mkdir_ready: "is_dir t p \<Longrightarrow> mkdir ok p t = (None, t)"
  using os_mkdir_exists[of t p ok] by (auto simp: mkdir_def)

lemma mkdir_parents_ready: "is_dir t p \<Longrightarrow> mkdir_parents ok p t = (None, t)"
  using os_mkdir_exists[of t p ok] by (auto simp: mkdir_parents.simps[of ok p t])

lemma mkdir_success:
  assumes "mkdir ok p t = (None, t')"
  shows "t' = with_dirs (parts p) t \<and> (\<forall>q\<in>parts p. t q = None \<or> t q = Some Dir)"
proof -
  obtain r t1 where o: "os_mkdir ok p t = (r, t1)" by (cases "os_mkdir ok p t")
  show ?thesis
  proof (cases r)
    case None
    then have f: "p \<noteq> []" "is_dir t (butlast p)" "t p = None" "t1 = t(p \<mapsto> Dir)"
      using os_mkdir_cases[OF o] by auto
    have "t' = t1" using assms o None by (simp add: mkdir_def)
    then show ?thesis using f by (auto simp: with_dirs_def parts_butlast is_dir_iff fun_eq_iff)
  next
    case (Some e)
    then have "is_dir t p" "t' = t" using assms o by (auto simp: mkdir_def split: if_splits)
    then show ?thesis by (auto simp: with_dirs_def is_dir_iff fun_eq_iff)
  qed
qed

lemma mkdir_parents_success:
  "mkdir_parents ok p t = (None, t') \<Longrightarrow>
     t' = with_dirs (parts p) t \<and> (\<forall>q\<in>parts p. t q = None \<or> t q = Some Dir)"
proof (induction ok p t arbitrary: t' rule: mkdir_parents.induct)
  case (1 ok p t)
  obtain r t1 where o: "os_mkdir ok p t = (r, t1)" by (cases "os_mkdir ok p t")
  show ?case
  proof (cases r)
    case None
    then have f: "p \<noteq> []" "is_dir t (butlast p)" "t p = None" "t1 = t(p \<mapsto> Dir)"
      using os_mkdir_cases[OF o] by auto
    have "t' = t1" using "1.prems" o None by (simp add: mkdir_parents.simps[of ok p t])
    then show ?thesis using f by (auto simp: with_dirs_def parts_butlast is_dir_iff fun_eq_iff)
  next
    case (Some e)
    then have t1: "t1 = t" using os_mkdir_cases[OF o] by auto
    show ?thesis
    proof (cases "e = FileNotFoundError")
      case False
      then have "is_dir t p" "t' = t"
        using "1.prems" o Some by (auto simp: mkdir_parents.simps[of ok p t] split: if_splits)
      then show ?thesis by (auto simp: with_dirs_def is_dir_iff fun_eq_iff)
    next
      case True
      have pne: "p \<noteq> []"
        using "1.prems" o Some True by (auto simp: mkdir_parents.simps[of ok p t] split: if_splits)
      obtain r2 t2 where m: "mkdir_parents ok (butlast p) t = (r2, t2)"
        by (cases "mkdir_parents ok (butlast p) t")
      have r2: "r2 = None" and fin: "mkdir ok p t2 = (None, t')"
        using "1.prems" o Some True pne m
        by (auto simp: mkdir_parents.simps[of ok p t] split: if_splits option.splits)
      have ih: "t2 = with_dirs (parts (butlast p)) t \<and> (\<forall>q\<in>parts (butlast p). t q = None \<or> t q = Some Dir)"
        using "1.IH" o Some True pne m r2 by auto
      have s: "t' = with_dirs (parts p) t2 \<and> (\<forall>q\<in>parts p. t2 q = None \<or> t2 q = Some Dir)"
        using mkdir_success[OF fin] .
      have "t2 p = t p" using ih not_in_parts_butlast[of p] by (simp add: with_dirs_def)
      then show ?thesis using ih s pne
        by (auto simp: with_dirs_def parts_butlast fun_eq_iff)
    qed
  qed
qed


lemma write_text_success:
  assumes "write_text ok p c t = (None, t')"
  shows "t' = t(p \<mapsto> File c) \<and> p \<noteq> [] \<and> is_dir t (butlast p) \<and> t p \<noteq> Some Dir"
  using assms
  by (cases "enter t [] (butlast p)"; cases "t p")
     (auto simp: write_text_def is_dir_def split: if_splits node.splits)

lemma write_text_ready:
  "p \<noteq> [] \<Longrightarrow> is_dir s (butlast p) \<Longrightarrow> s p = Some (File d) \<Longrightarrow>
     write_text ok p c s = (None, s(p \<mapsto> File c))"
  by (simp add: write_text_def is_dir_def)

lemma kinds_le_refl: "kinds_le t t"
  by (simp add: kinds_le_def)

lemma kinds_le_trans: "kinds_le t s \<Longrightarrow> kinds_le s r \<Longrightarrow> kinds_le t r"
  unfolding kinds_le_def by metis

lemma kinds_le_back: "s q = None \<or> s q = Some Dir \<Longrightarrow> kinds_le t s \<Longrightarrow> t q = None \<or> t q = Some Dir"
proof (cases "t q")
  case None
  then show ?thesis by simp
next
  case (Some n)
  assume a: "s q = None \<or> s q = Some Dir" "kinds_le t s"
  show ?thesis
  proof (cases n)
    case Dir
    then show ?thesis using Some by simp
  next
    case (File c)
    then have "\<exists>d. s q = Some (File d)" using a Some by (simp add: kinds_le_def)
    then show ?thesis using a by auto
  qed
qed

lemma is_dir_kinds_le: "is_dir t p \<Longrightarrow> kinds_le t s \<Longrightarrow> is_dir s p"
  by (auto simp: is_dir_iff kinds_le_def)

lemma kinds_le_with_dirs: "\<forall>q\<in>D. t q = None \<or> t q = Some Dir \<Longrightarrow> kinds_le t (with_dirs D t)"
  by (auto simp: kinds_le_def with_dirs_def)

lemma is_dir_with_dirs: "is_dir (with_dirs (parts p) t) p"
  by (simp add: is_dir_iff with_dirs_def)

lemma perform_mono: "perform ok a t = (None, t') \<Longrightarrow> kinds_le t t'"
proof (cases a)
  case (Mkdir p)
  assume "perform ok a t = (None, t')"
  then show ?thesis using mkdir_success[of ok p t t'] Mkdir by (auto intro: kinds_le_with_dirs)
next
  case (MkdirParents p)
  assume "perform ok a t = (None, t')"
  then show ?thesis using mkdir_parents_success[of ok p t t'] MkdirParents by (auto intro: kinds_le_with_dirs)
next
  case (WriteText p c)
  assume "perform ok a t = (None, t')"
  then have "t' = t(p \<mapsto> File c)" "t p \<noteq> Some Dir"
    using write_text_success[of ok p c t t'] WriteText by auto
  then show ?thesis by (auto simp: kinds_le_def)
next
  case (Raise e)
  assume "perform ok a t = (None, t')"
  then show ?thesis using Raise by simp
qed

lemma perform_ready: "perform ok a t = (None, t') \<Longrightarrow> ready a t'"
proof (cases a)
  case (Mkdir p)
  assume "perform ok a t = (None, t')"
  then show ?thesis using mkdir_success[of ok p t t'] Mkdir by (auto simp: is_dir_with_dirs)
next
  case (MkdirParents p)
  assume "perform ok a t = (None, t')"
  then show ?thesis using mkdir_parents_success[of ok p t t'] MkdirParents by (auto simp: is_dir_with_dirs)
next
  case (WriteText p c)
  assume "perform ok a t = (None, t')"
  then have f: "t' = t(p \<mapsto> File c)" "p \<noteq> []" "is_dir t (butlast p)"
    using write_text_success[of ok p c t t'] WriteText by auto
  have "is_dir t' (butlast p)"
    using f not_in_parts_butlast[of p] by (auto simp: is_dir_iff)
  then show ?thesis using f WriteText by simp
next
  case (Raise e)
  assume "perform ok a t = (None, t')"
  then show ?thesis using Raise by simp
qed

lemma ready_perform: "ready a s \<Longrightarrow> perform ok a s = (None, touch a s)"
  by (cases a) (auto simp: mkdir_ready mkdir_parents_ready write_text_ready)

lemma ready_kinds_le: "ready a s \<Longrightarrow> kinds_le s s' \<Longrightarrow> ready a s'"
  by (cases a) (auto intro: is_dir_kinds_le simp: kinds_le_def)

lemma touch_kinds: "ready a s \<Longrightarrow> kinds_le s (touch a s) \<and> kinds_le (touch a s) s"
  by (cases a) (auto simp: kinds_le_def)

lemma run_ready:
  "perform_all ok as t = (None, t1) \<Longrightarrow> kinds_le t t1 \<and> (\<forall>a\<in>set as. ready a t1)"
proof (induction as arbitrary: t)
  case Nil
  then show ?case by (simp add: kinds_le_refl)
next
  case (Cons a as)
  obtain r ta where p: "perform ok a t = (r, ta)" by (cases "perform ok a t")
  have r: "r = None" using Cons.prems p by (cases r) auto
  have rest: "perform_all ok as ta = (None, t1)" using Cons.prems p r by simp
  have ih: "kinds_le ta t1" "\<forall>a\<in>set as. ready a t1" using Cons.IH[OF rest] by auto
  have "kinds_le t ta" "ready a ta" using perform_mono perform_ready p r by auto
  then show ?case using ih by (auto intro: kinds_le_trans ready_kinds_le)
qed

lemma written_Nil: "written [] s = s"
  by (simp add: written_def)

lemma written_Cons: "written ((p, c) # ws) s = written ws (s(p \<mapsto> File c))"
  by (auto simp: written_def fun_eq_iff map_add_def split: option.splits)

lemma ready_run:
  "\<forall>a\<in>set as. ready a s \<Longrightarrow> perform_all ok as s = (None, written (writes as) s)"
proof (induction as arbitrary: s)
  case Nil
  then show ?case by (simp add: written_Nil)
next
  case (Cons a as)
  have p: "perform ok a s = (None, touch a s)" using Cons.prems by (simp add: ready_perform)
  have "\<forall>b\<in>set as. ready b (touch a s)"
    using Cons.prems touch_kinds[of a s] by (auto intro: ready_kinds_le)
  then have "perform_all ok as (touch a s) = (None, written (writes as) (touch a s))"
    by (rule Cons.IH)
  then show ?case using p by (cases a) (auto simp: written_Cons)
qed

lemma made_Cons: "made (a # as) = made1 a \<union> made as"
  by (simp add: made_def)

lemma perform_form:
  "perform ok a t = (None, t') \<Longrightarrow>
     t' = written (writes [a]) (with_dirs (made1 a) t)
     \<and> (\<forall>q\<in>made1 a. t q = None \<or> t q = Some Dir)
     \<and> (\<forall>q\<in>fst ` set (writes [a]). t q \<noteq> Some Dir)"
proof (cases a)
  case (Mkdir p)
  assume "perform ok a t = (None, t')"
  then show ?thesis using mkdir_success[of ok p t t'] Mkdir by (auto simp: written_Nil)
next
  case (MkdirParents p)
  assume "perform ok a t = (None, t')"
  then show ?thesis using mkdir_parents_success[of ok p t t'] MkdirParents by (auto simp: written_Nil)
next
  case (WriteText p c)
  assume "perform ok a t = (None, t')"
  then show ?thesis using write_text_success[of ok p c t t'] WriteText
    by (auto simp: written_Cons written_Nil with_dirs_def)
next
  case (Raise e)
  assume "perform ok a t = (None, t')"
  then show ?thesis using Raise by simp
qed

lemma run_form:
  "perform_all ok as t = (None, t1) \<Longrightarrow>
     t1 = written (writes as) (with_dirs (made as) t)
     \<and> (\<forall>q\<in>made as. t q = None \<or> t q = Some Dir)
     \<and> (\<forall>q\<in>fst ` set (writes as). t q \<noteq> Some Dir)
     \<and> made as \<inter> fst ` set (writes as) = {}"
proof (induction as arbitrary: t)
  case Nil
  then show ?case by (simp add: written_Nil made_def with_dirs_def)
next
  case (Cons a as)
  obtain r ta where p: "perform ok a t = (r, ta)" by (cases "perform ok a t")
  have r: "r = None" using Cons.prems p by (cases r) auto
  have rest: "perform_all ok as ta = (None, t1)" using Cons.prems p r by simp
  note ih = Cons.IH[OF rest]
  note f = perform_form[OF p[unfolded r]]
  have k: "kinds_le t ta" using perform_mono p r by auto
  have m: "made (a # as) = made1 a \<union> made as" by (simp add: made_def)
  have c2: "\<forall>q\<in>made (a # as). t q = None \<or> t q = Some Dir"
  proof
    fix q assume "q \<in> made (a # as)"
    then consider "q \<in> made1 a" | "q \<in> made as" using m by auto
    then show "t q = None \<or> t q = Some Dir"
    proof cases
      case 1
      then show ?thesis using f by blast
    next
      case 2
      then have "ta q = None \<or> ta q = Some Dir" using ih by blast
      then show ?thesis using k by (rule kinds_le_back)
    qed
  qed
  show ?case
  proof (cases a)
    case (Mkdir p)
    then have ta: "ta = with_dirs (parts p) t" using f by (simp add: written_Nil)
    have "with_dirs (made as) ta = with_dirs (made (a # as)) t"
      using Mkdir by (auto simp: ta made_Cons with_dirs_def fun_eq_iff)
    moreover have "\<forall>q\<in>fst ` set (writes as). t q \<noteq> Some Dir"
      using ih k unfolding kinds_le_def by metis
    moreover have "made (a # as) \<inter> fst ` set (writes as) = {}"
    proof -
      have "\<forall>q\<in>parts p. ta q = Some Dir" by (simp add: ta with_dirs_def)
      then have "parts p \<inter> fst ` set (writes as) = {}" using ih by blast
      then show ?thesis using ih Mkdir by (auto simp: made_Cons)
    qed
    ultimately show ?thesis using ih c2 Mkdir by simp
  next
    case (MkdirParents p)
    then have ta: "ta = with_dirs (parts p) t" using f by (simp add: written_Nil)
    have "with_dirs (made as) ta = with_dirs (made (a # as)) t"
      using MkdirParents by (auto simp: ta made_Cons with_dirs_def fun_eq_iff)
    moreover have "\<forall>q\<in>fst ` set (writes as). t q \<noteq> Some Dir"
      using ih k unfolding kinds_le_def by metis
    moreover have "made (a # as) \<inter> fst ` set (writes as) = {}"
    proof -
      have "\<forall>q\<in>parts p. ta q = Some Dir" by (simp add: ta with_dirs_def)
      then have "parts p \<inter> fst ` set (writes as) = {}" using ih by blast
      then show ?thesis using ih MkdirParents by (auto simp: made_Cons)
    qed
    ultimately show ?thesis using ih c2 MkdirParents by simp
  next
    case (WriteText p c)
    then have ta: "ta = t(p \<mapsto> File c)" and tp: "t p \<noteq> Some Dir"
      using f by (auto simp: written_Nil written_Cons with_dirs_def)
    have pm: "p \<notin> made as"
    proof
      assume "p \<in> made as"
      then have "ta p = None \<or> ta p = Some Dir" using ih by blast
      then show False by (simp add: ta)
    qed
    have "with_dirs (made as) ta = (with_dirs (made (a # as)) t)(p \<mapsto> File c)"
      using WriteText pm by (auto simp: ta made_Cons with_dirs_def fun_eq_iff)
    moreover have "t1 = written (writes as) (with_dirs (made as) ta)" using ih by blast
    ultimately have c1: "t1 = written (writes (a # as)) (with_dirs (made (a # as)) t)"
      by (simp only: WriteText writes.simps written_Cons)
    have c3: "\<forall>q\<in>fst ` set (writes (a # as)). t q \<noteq> Some Dir"
    proof
      fix q assume "q \<in> fst ` set (writes (a # as))"
      then consider "q = p" | "q \<in> fst ` set (writes as)" using WriteText by auto
      then show "t q \<noteq> Some Dir"
      proof cases
        case 1
        then show ?thesis using tp by simp
      next
        case 2
        then have "ta q \<noteq> Some Dir" using ih by blast
        then show ?thesis using k unfolding kinds_le_def by metis
      qed
    qed
    have c4: "made (a # as) \<inter> fst ` set (writes (a # as)) = {}"
      using ih pm WriteText by (auto simp: made_Cons)
    show ?thesis using c1 c2 c3 c4 by simp
  next
    case (Raise e)
    then show ?thesis using p r by simp
  qed
qed

lemma written_idem:
  "written ws (written ws s) = written ws s"
  by (auto simp: written_def fun_eq_iff split: option.splits)

lemma rerun_same:
  assumes "perform_all ok as t = (None, t1)"
  shows "perform_all ok as t1 = (None, t1)"
proof -
  have "\<forall>a\<in>set as. ready a t1" using run_ready[OF assms] by simp
  then have "perform_all ok as t1 = (None, written (writes as) t1)" by (rule ready_run)
  moreover have "t1 = written (writes as) (with_dirs (made as) t)" using run_form[OF assms] by simp
  ultimately show ?thesis by (metis written_idem)
qed

end
